theory Spec2Isabelle
  imports Main "HOL-Library.Word" "HOL-Library.AList"
begin

section \<open>Data model\<close>

text \<open>
  A shallow embedding of \<^verbatim>\<open>cmd/mcp-go-indexer/main.go\<close>. Go strings and byte slices are
  byte sequences, so both are \<^typ>\<open>string\<close>. The services the program talks to (the file
  system, the Ollama HTTP endpoint, the tree-sitter parser, the Qdrant store, the UUID and
  JSON libraries) are fields of an environment record; whatever the program does to the
  outside world is recorded in an explicit state.
\<close>

type_synonym bytes = string

text \<open>Go \<^verbatim>\<open>error\<close> values. \<open>SkipDir\<close> and \<open>SkipAll\<close> are the sentinels of
  \<^verbatim>\<open>path/filepath\<close>; \<open>Wrapf\<close> is \<^verbatim>\<open>fmt.Errorf("...%w", err)\<close>, \<open>Errorf\<close> is
  \<^verbatim>\<open>fmt.Errorf\<close> of a plain message; \<open>LibError\<close> is an error made by the operating
  system or a library; \<open>Panic\<close> is a run-time panic.\<close>

datatype error =
    SkipDir
  | SkipAll
  | LibError string
  | Wrapf string error
  | Errorf string
  | Panic string

fun Error :: "error \<Rightarrow> string" where
  "Error SkipDir = ''skip this directory''"
| "Error SkipAll = ''skip everything and stop the walk''"
| "Error (LibError m) = m"
| "Error (Wrapf m e) = m @ Error e"
| "Error (Errorf m) = m"
| "Error (Panic m) = m"

text \<open>The result of a tool handler: \<^verbatim>\<open>mcp.NewToolResultText\<close> or
  \<^verbatim>\<open>mcp.NewToolResultError\<close>.\<close>

datatype tool_result = ToolResultText string | ToolResultError string

text \<open>The arguments of a \<^verbatim>\<open>mcp.CallToolRequest\<close>.\<close>

datatype arg = ArgString string | ArgOther

type_synonym CallToolRequest = "(string \<times> arg) list"

fun RequireString :: "CallToolRequest \<Rightarrow> string \<Rightarrow> error + string" where
  "RequireString request key =
     (case map_of request key of
        None \<Rightarrow> Inl (Errorf (''required argument \"'' @ key @ ''\" not found''))
      | Some (ArgString v) \<Rightarrow> Inr v
      | Some ArgOther \<Rightarrow> Inl (Errorf (''argument \"'' @ key @ ''\" is not a string'')))"

declare RequireString.simps [simp del]

text \<open>A directory tree as \<^verbatim>\<open>filepath.WalkDir\<close> sees it. A \<open>File\<close> is any entry that is
  not a directory: its name and what \<^verbatim>\<open>os.ReadFile\<close> gives for it (\<open>None\<close>: the read
  fails). A \<open>Dir\<close> has its name, the entries \<^verbatim>\<open>os.ReadDir\<close> returns, in its order, and
  the error \<^verbatim>\<open>os.ReadDir\<close> returns with them.\<close>

datatype node =
    File string "bytes option"
  | Dir string "node list" "error option"

fun Name :: "node \<Rightarrow> string" where
  "Name (File n _) = n"
| "Name (Dir n _ _) = n"

text \<open>A syntax-tree node as far as the handler reads it: \<^verbatim>\<open>node.Content(content)\<close>,
  \<^verbatim>\<open>node.StartPoint().Row\<close> and \<^verbatim>\<open>node.EndPoint().Row\<close> (both \<^verbatim>\<open>uint32\<close>). A capture
  is the capture's name (\<^verbatim>\<open>q.CaptureNameForId(capture.Index)\<close>) with its node; a match is
  the list of its captures.\<close>

datatype ts_node = TsNode (Content: bytes) (StartRow: "32 word") (EndRow: "32 word")

datatype capture = Capture (CaptureName: string) (CaptureNode: ts_node)

type_synonym match = "capture list"

text \<open>\<^verbatim>\<open>qdrant.Value\<close> with its nil-safe getters: a getter applied to a missing key (a nil
  pointer) or to a value of another kind gives the zero value.\<close>

datatype qvalue = StringValue string | IntegerValue "64 word"

type_synonym payload = "(string \<times> qvalue) list"

fun GetStringValue :: "qvalue option \<Rightarrow> string" where
  "GetStringValue (Some (StringValue v)) = v"
| "GetStringValue _ = []"

fun GetIntegerValue :: "qvalue option \<Rightarrow> 64 word" where
  "GetIntegerValue (Some (IntegerValue v)) = v"
| "GetIntegerValue _ = 0"

record 'f PointStruct =
  Id :: string
  Vectors :: "'f list"
  Payload :: payload

datatype 'f ScoredPoint = ScoredPoint (GetPayload: payload) (GetScore: 'f)

record OllamaEmbedRequest =
  Model :: string
  Input :: string

text \<open>Of the decoded response only \<^verbatim>\<open>Embeddings\<close> is ever read.\<close>

record 'd OllamaEmbedResponse =
  Embeddings :: "'d list list"

record http_response =
  StatusCode :: int
  Body :: bytes

text \<open>The counters of one indexing run. Go's \<^verbatim>\<open>int\<close> is modelled as \<^typ>\<open>int\<close>: a counter
  grows by one per directory entry or chunk and stays far below \<open>2^63\<close>.\<close>

record stats =
  Files :: int
  Chunks :: int
  Skipped :: int
  Failed :: int

text \<open>The state threaded through a handler: its counters, and what it has done to the
  outside world so far, oldest first: the paths handed to \<^verbatim>\<open>os.ReadFile\<close>, the HTTP
  requests posted (URL and body), the points handed to \<^verbatim>\<open>Upsert\<close>, and the collection
  (point id to point).\<close>

record 'f state =
  stats :: stats
  reads :: "string list"
  posts :: "(string \<times> bytes) list"
  upserts :: "'f PointStruct list"
  store :: "(string \<times> 'f PointStruct) list"

text \<open>The environment: configuration and library or service calls, none of them code of
  this repository. \<open>'d\<close> is \<^verbatim>\<open>float64\<close>, \<open>'f\<close> is \<^verbatim>\<open>float32\<close>.
  \<^item> \<open>ollamaURL\<close>, \<open>embeddingModel\<close>: the two global configuration variables;
  \<^item> \<open>Marshal\<close>: \<^verbatim>\<open>sonic.Marshal\<close> of the request; \<open>Decode\<close>: the sonic decoder on the
    response body;
  \<^item> \<open>Post\<close>: \<^verbatim>\<open>http.Post\<close>, given the requests posted before, the URL and the body;
  \<^item> \<open>float32\<close>: the conversion \<^verbatim>\<open>float32(val)\<close>;
  \<^item> \<open>Lstat\<close>: \<^verbatim>\<open>os.Lstat\<close> of the root path, giving the root entry with all that lies
    beneath it; \<open>Join\<close>: \<^verbatim>\<open>filepath.Join\<close> of a directory path and an entry name;
  \<^item> \<open>Matches\<close>: the tree-sitter parse of a file followed by the query cursor's matches,
    in order;
  \<^item> \<open>NewSHA1\<close>: \<^verbatim>\<open>uuid.NewSHA1(namespace, data).String()\<close>;
  \<^item> \<open>Upsert\<close>: the store's upsert of one point, given the points handed to it before;
    it returns the error, if any;
  \<^item> \<open>Query\<close>: the store's nearest-neighbour query on the collection, a vector and a
    limit;
  \<^item> \<open>LimitArg\<close>: \<^verbatim>\<open>uint64(request.GetFloat("limit", 20.0))\<close>;
  \<^item> \<open>FormatScore\<close>: the \<^verbatim>\<open>%.3f\<close> rendering of a score.
  \<open>Post\<close> and \<open>Upsert\<close> see the history of earlier calls, so the same request may succeed
  at one time and fail at another.\<close>

record ('d, 'f) env =
  ollamaURL :: string
  embeddingModel :: string
  Marshal :: "OllamaEmbedRequest \<Rightarrow> error + bytes"
  Post :: "(string \<times> bytes) list \<Rightarrow> string \<Rightarrow> bytes \<Rightarrow> error + http_response"
  Decode :: "bytes \<Rightarrow> error + 'd OllamaEmbedResponse"
  float32 :: "'d \<Rightarrow> 'f"
  Lstat :: "string \<Rightarrow> error + node"
  Join :: "string \<Rightarrow> string \<Rightarrow> string"
  Matches :: "bytes \<Rightarrow> match list"
  NewSHA1 :: "string \<Rightarrow> bytes \<Rightarrow> string"
  Upsert :: "'f PointStruct list \<Rightarrow> 'f PointStruct \<Rightarrow> error option"
  Query :: "(string \<times> 'f PointStruct) list \<Rightarrow> 'f list \<Rightarrow> 64 word \<Rightarrow> error + 'f ScoredPoint list"
  LimitArg :: "CallToolRequest \<Rightarrow> 64 word"
  FormatScore :: "'f \<Rightarrow> string"

section \<open>Library functions the handlers depend on\<close>

text \<open>\<^verbatim>\<open>%d\<close>: decimal digits, with a sign for a negative number.\<close>

fun digits :: "nat \<Rightarrow> string" where
  "digits n = (if n < 10 then [''0123456789'' ! n]
               else digits (n div 10) @ [''0123456789'' ! (n mod 10)])"

declare digits.simps [simp del]

definition show_int :: "int \<Rightarrow> string" where
  "show_int i = (if i < 0 then CHR ''-'' # digits (nat (- i)) else digits (nat i))"

text \<open>\<^verbatim>\<open>strings.HasPrefix\<close>.\<close>

definition HasPrefix :: "string \<Rightarrow> string \<Rightarrow> bool" where
  "HasPrefix s prefix = (length prefix \<le> length s \<and> take (length prefix) s = prefix)"

text \<open>\<^verbatim>\<open>filepath.Ext\<close>: scanning back from the end of the path, the suffix that starts at
  the first dot met before any path separator; empty when there is none. \<open>ext_scan\<close> walks
  the reversed path and keeps what it has passed.\<close>

fun ext_scan :: "string \<Rightarrow> string \<Rightarrow> string" where
  "ext_scan [] acc = []"
| "ext_scan (c # cs) acc =
     (if c = CHR ''/'' then []
      else if c = CHR ''.'' then c # acc
      else ext_scan cs (c # acc))"

definition Ext :: "string \<Rightarrow> string" where
  "Ext path = ext_scan (rev path) []"

definition NameSpaceURL :: string where
  "NameSpaceURL = ''6ba7b811-9dad-11d1-80b4-00c04fd430c8''"

section \<open>The embedding client\<close>

definition getOllamaEmbedding ::
  "('d, 'f) env \<Rightarrow> string \<Rightarrow> 'f state \<Rightarrow> (error + 'f list) \<times> 'f state" where
  "getOllamaEmbedding env text s =
     (let reqBody = \<lparr>Model = embeddingModel env, Input = text\<rparr> in
      case Marshal env reqBody of
        Inl err \<Rightarrow> (Inl (Wrapf ''failed to marshal request: '' err), s)
      | Inr jsonData \<Rightarrow>
          (let s' = s\<lparr>posts := posts s @ [(ollamaURL env, jsonData)]\<rparr> in
           case Post env (posts s) (ollamaURL env) jsonData of
             Inl err \<Rightarrow> (Inl (Wrapf ''failed to call Ollama API: '' err), s')
           | Inr resp \<Rightarrow>
               if StatusCode resp \<noteq> 200
               then (Inl (Errorf (''ollama API returned status: '' @ show_int (StatusCode resp))), s')
               else
                 (case Decode env (Body resp) of
                    Inl err \<Rightarrow> (Inl (Wrapf ''failed to decode ollama response: '' err), s')
                  | Inr embedResp \<Rightarrow>
                      (case Embeddings embedResp of
                         [] \<Rightarrow> (Inl (Errorf ''ollama returned an empty embeddings array''), s')
                       | float64Vector # _ \<Rightarrow> (Inr (map (float32 env) float64Vector), s')))))"

section \<open>The indexing handler\<close>

text \<open>The variables a match's captures are read into.\<close>

record chunk =
  funcName :: string
  funcBody :: string
  startLine :: "32 word"
  endLine :: "32 word"

definition emptyChunk :: chunk where
  "emptyChunk = \<lparr>funcName = [], funcBody = [], startLine = 0, endLine = 0\<rparr>"

text \<open>The loop over \<^verbatim>\<open>match.Captures\<close>.\<close>

fun readCaptures :: "capture list \<Rightarrow> chunk \<Rightarrow> chunk" where
  "readCaptures [] c = c"
| "readCaptures (cap # caps) c =
     readCaptures caps
       (if CaptureName cap = ''func''
        then c\<lparr>funcBody := Content (CaptureNode cap),
                startLine := StartRow (CaptureNode cap) + 1,
                endLine := EndRow (CaptureNode cap) + 1\<rparr>
        else if CaptureName cap = ''name''
        then c\<lparr>funcName := Content (CaptureNode cap)\<rparr>
        else c)"

text \<open>The name hashed into the point id, and the id.\<close>

definition uuidName :: "string \<Rightarrow> string \<Rightarrow> bytes" where
  "uuidName path name = path @ '':'' @ name"

definition uniqueID :: "('d, 'f) env \<Rightarrow> string \<Rightarrow> string \<Rightarrow> string" where
  "uniqueID env path name = NewSHA1 env NameSpaceURL (uuidName path name)"

text \<open>The point of one chunk.\<close>

definition chunkPayload :: "string \<Rightarrow> chunk \<Rightarrow> payload" where
  "chunkPayload path c =
     [(''file_path'', StringValue path),
      (''function'', StringValue (funcName c)),
      (''line_start'', IntegerValue (ucast (startLine c))),
      (''line_end'', IntegerValue (ucast (endLine c))),
      (''code_snippet'', StringValue (funcBody c))]"

definition chunkPoint :: "('d, 'f) env \<Rightarrow> string \<Rightarrow> chunk \<Rightarrow> 'f list \<Rightarrow> 'f PointStruct" where
  "chunkPoint env path c embedding =
     \<lparr>Id = uniqueID env path (funcName c), Vectors = embedding, Payload = chunkPayload path c\<rparr>"

definition incFailed :: "'f state \<Rightarrow> 'f state" where
  "incFailed s = s\<lparr>stats := (stats s)\<lparr>Failed := Failed (stats s) + 1\<rparr>\<rparr>"

definition incChunks :: "'f state \<Rightarrow> 'f state" where
  "incChunks s = s\<lparr>stats := (stats s)\<lparr>Chunks := Chunks (stats s) + 1\<rparr>\<rparr>"

definition incFiles :: "'f state \<Rightarrow> 'f state" where
  "incFiles s = s\<lparr>stats := (stats s)\<lparr>Files := Files (stats s) + 1\<rparr>\<rparr>"

definition incSkipped :: "'f state \<Rightarrow> 'f state" where
  "incSkipped s = s\<lparr>stats := (stats s)\<lparr>Skipped := Skipped (stats s) + 1\<rparr>\<rparr>"

text \<open>The body of the loop over the matches of one file: embed, make the id, upsert.\<close>

definition indexMatch :: "('d, 'f) env \<Rightarrow> string \<Rightarrow> match \<Rightarrow> 'f state \<Rightarrow> 'f state" where
  "indexMatch env path m s =
     (let c = readCaptures m emptyChunk in
      case getOllamaEmbedding env (funcBody c) s of
        (Inl err, s1) \<Rightarrow> incFailed s1
      | (Inr embedding, s1) \<Rightarrow>
          (let p = chunkPoint env path c embedding;
               s2 = s1\<lparr>upserts := upserts s1 @ [p]\<rparr>
           in case Upsert env (upserts s1) p of
                Some err \<Rightarrow> incFailed s2
              | None \<Rightarrow> incChunks (s2\<lparr>store := AList.update (Id p) p (store s2)\<rparr>)))"

fun indexMatches :: "('d, 'f) env \<Rightarrow> string \<Rightarrow> match list \<Rightarrow> 'f state \<Rightarrow> 'f state" where
  "indexMatches env path [] s = s"
| "indexMatches env path (m # ms) s = indexMatches env path ms (indexMatch env path m s)"

text \<open>The function handed to \<^verbatim>\<open>filepath.WalkDir\<close>. The entry is \<open>None\<close> where Go passes a
  nil \<^verbatim>\<open>DirEntry\<close>; Go does so only together with an error.\<close>

definition walkDirFn ::
  "('d, 'f) env \<Rightarrow> string \<Rightarrow> node option \<Rightarrow> error option \<Rightarrow> 'f state \<Rightarrow> error option \<times> 'f state" where
  "walkDirFn env path d err s =
     (case err of
        Some e \<Rightarrow> (Some e, s)
      | None \<Rightarrow>
          (case d of
             None \<Rightarrow> (Some (Panic ''nil pointer dereference''), s)
           | Some (Dir name _ _) \<Rightarrow>
               if HasPrefix name ''.'' \<or> name = ''node_modules'' \<or> name = ''vendor''
               then (Some SkipDir, s)
               else (None, s)
           | Some (File name content) \<Rightarrow>
               if Ext path \<noteq> ''.go'' then (None, incSkipped s)
               else
                 (let s1 = s\<lparr>reads := reads s @ [path]\<rparr> in
                  case content of
                    None \<Rightarrow> (None, incFailed s1)
                  | Some content \<Rightarrow>
                      (None, indexMatches env path (Matches env content) (incFiles s1)))))"

text \<open>\<^verbatim>\<open>filepath.walkDir\<close> and its loop over the entries of a directory, with
  \<open>walkDirFn\<close> as the function called. \<^verbatim>\<open>d.IsDir()\<close> is the case distinction between
  \<open>File\<close> and \<open>Dir\<close>: for a \<open>File\<close> the result of the function is returned as it is; for
  a \<open>Dir\<close> a returned \<open>SkipDir\<close> becomes nil, a \<^verbatim>\<open>ReadDir\<close> error is reported by a
  second call, and a \<open>SkipDir\<close> from an entry ends the loop.\<close>

fun walkDir :: "('d, 'f) env \<Rightarrow> string \<Rightarrow> node \<Rightarrow> 'f state \<Rightarrow> error option \<times> 'f state"
and walkEntries :: "('d, 'f) env \<Rightarrow> string \<Rightarrow> node list \<Rightarrow> 'f state \<Rightarrow> error option \<times> 'f state"
where
  "walkDir env path (File n r) s = walkDirFn env path (Some (File n r)) None s"
| "walkDir env path (Dir n dirs rerr) s =
     (case walkDirFn env path (Some (Dir n dirs rerr)) None s of
        (Some err, s1) \<Rightarrow> (if err = SkipDir then None else Some err, s1)
      | (None, s1) \<Rightarrow>
          (case rerr of
             None \<Rightarrow> walkEntries env path dirs s1
           | Some e \<Rightarrow>
               (case walkDirFn env path (Some (Dir n dirs rerr)) (Some e) s1 of
                  (Some err, s2) \<Rightarrow> (if err = SkipDir then None else Some err, s2)
                | (None, s2) \<Rightarrow> walkEntries env path dirs s2)))"
| "walkEntries env path [] s = (None, s)"
| "walkEntries env path (d1 # ds) s =
     (case walkDir env (Join env path (Name d1)) d1 s of
        (Some err, s1) \<Rightarrow> (if err = SkipDir then None else Some err, s1)
      | (None, s1) \<Rightarrow> walkEntries env path ds s1)"

text \<open>\<^verbatim>\<open>filepath.WalkDir\<close>.\<close>

definition WalkDir :: "('d, 'f) env \<Rightarrow> string \<Rightarrow> 'f state \<Rightarrow> error option \<times> 'f state" where
  "WalkDir env root s =
     (case (case Lstat env root of
              Inl err \<Rightarrow> walkDirFn env root None (Some err) s
            | Inr info \<Rightarrow> walkDir env root info s) of
        (err, s1) \<Rightarrow> (if err = Some SkipDir \<or> err = Some SkipAll then None else err, s1))"

definition report :: "stats \<Rightarrow> string" where
  "report st =
     ''Indexing Complete.'' @ [CHR 0x0A] @
     ''Files Scanned: '' @ show_int (Files st) @ [CHR 0x0A] @
     ''Functions Indexed: '' @ show_int (Chunks st) @ [CHR 0x0A] @
     ''Failed/Skipped: '' @ show_int (Failed st) @ ''/'' @ show_int (Skipped st)"

definition zeroStats :: stats where
  "zeroStats = \<lparr>Files = 0, Chunks = 0, Skipped = 0, Failed = 0\<rparr>"

text \<open>The handler returns a tool result and a Go error.\<close>

definition handleIndexProject ::
  "('d, 'f) env \<Rightarrow> CallToolRequest \<Rightarrow> 'f state \<Rightarrow> (tool_result \<times> error option) \<times> 'f state" where
  "handleIndexProject env request s =
     (case RequireString request ''path'' of
        Inl err \<Rightarrow> ((ToolResultError (''Path required: '' @ Error err), None), s)
      | Inr rootPath \<Rightarrow>
          (case WalkDir env rootPath (s\<lparr>stats := zeroStats\<rparr>) of
             (err, s1) \<Rightarrow> ((ToolResultText (report (stats s1)), None), s1)))"

section \<open>The search handler\<close>

definition renderPoint :: "('d, 'f) env \<Rightarrow> 'f ScoredPoint \<Rightarrow> string" where
  "renderPoint env point =
     (let payload = GetPayload point;
          filePath = GetStringValue (map_of payload ''file_path'');
          lineNum = GetIntegerValue (map_of payload ''line_number'');
          codeSnippet = GetStringValue (map_of payload ''code_snippet'')
      in ''File: '' @ filePath @ '' (Line: '' @ show_int (sint lineNum) @ '')'' @ [CHR 0x0A] @
         ''Score: '' @ FormatScore env (GetScore point) @ [CHR 0x0A] @
         ''```go'' @ [CHR 0x0A] @ codeSnippet @ [CHR 0x0A] @ ''```'' @ [CHR 0x0A, CHR 0x0A] @
         ''---'' @ [CHR 0x0A])"

fun renderPoints :: "('d, 'f) env \<Rightarrow> 'f ScoredPoint list \<Rightarrow> string \<Rightarrow> string" where
  "renderPoints env [] responseText = responseText"
| "renderPoints env (point # points) responseText =
     renderPoints env points (responseText @ renderPoint env point)"

definition codebase_search ::
  "('d, 'f) env \<Rightarrow> CallToolRequest \<Rightarrow> 'f state \<Rightarrow> (tool_result \<times> error option) \<times> 'f state" where
  "codebase_search env request s =
     (case RequireString request ''query'' of
        Inl err \<Rightarrow> ((ToolResultError (''Invalid or missing 'query': '' @ Error err), None), s)
      | Inr query \<Rightarrow>
          (let limit = LimitArg env request in
           case getOllamaEmbedding env query s of
             (Inl err, s1) \<Rightarrow> ((ToolResultError (''Ollama error: '' @ Error err), None), s1)
           | (Inr queryVector, s1) \<Rightarrow>
               (case Query env (store s1) queryVector limit of
                  Inl err \<Rightarrow> ((ToolResultError (''Qdrant search error: '' @ Error err), None), s1)
                | Inr searchResults \<Rightarrow>
                    (let responseText = renderPoints env searchResults [] in
                     ((ToolResultText (if responseText = [] then ''No relevant code found.''
                                       else responseText), None), s1)))))"

section \<open>Notions used in the statements\<close>

text \<open>The directory names the walk does not descend into.\<close>

definition pruned :: "string \<Rightarrow> bool" where
  "pruned name = (HasPrefix name ''.'' \<or> name = ''node_modules'' \<or> name = ''vendor'')"

text \<open>What the walk function does with one entry that is not a directory.\<close>

definition visitFile :: "('d, 'f) env \<Rightarrow> string \<Rightarrow> bytes option \<Rightarrow> 'f state \<Rightarrow> 'f state" where
  "visitFile env path r s =
     (if Ext path \<noteq> ''.go'' then incSkipped s
      else case r of
             None \<Rightarrow> incFailed (s\<lparr>reads := reads s @ [path]\<rparr>)
           | Some content \<Rightarrow>
               indexMatches env path (Matches env content)
                 (incFiles (s\<lparr>reads := reads s @ [path]\<rparr>)))"

fun visitFiles :: "('d, 'f) env \<Rightarrow> (string \<times> bytes option) list \<Rightarrow> 'f state \<Rightarrow> 'f state" where
  "visitFiles env [] s = s"
| "visitFiles env ((path, r) # fs) s = visitFiles env fs (visitFile env path r s)"

text \<open>The traversal alone, as a function of the tree and of the path join: the entries that
  are not directories, in the order the walk reaches them, each with its path and its
  content, and the error the walk ends with. Nothing here looks at a file's content, at
  the embedding service or at the store.\<close>

fun visit ::
  "(string \<Rightarrow> string \<Rightarrow> string) \<Rightarrow> string \<Rightarrow> node \<Rightarrow> (string \<times> bytes option) list \<times> error option"
and visits ::
  "(string \<Rightarrow> string \<Rightarrow> string) \<Rightarrow> string \<Rightarrow> node list \<Rightarrow> (string \<times> bytes option) list \<times> error option"
where
  "visit J path (File n r) = ([(path, r)], None)"
| "visit J path (Dir n ds rerr) =
     (if pruned n then ([], None)
      else case rerr of
             None \<Rightarrow> visits J path ds
           | Some e \<Rightarrow> ([], if e = SkipDir then None else Some e))"
| "visits J path [] = ([], None)"
| "visits J path (d # ds) =
     (case visit J (J path (Name d)) d of
        (fs, Some e) \<Rightarrow> (fs, if e = SkipDir then None else Some e)
      | (fs, None) \<Rightarrow> (case visits J path ds of (gs, r) \<Rightarrow> (fs @ gs, r)))"

text \<open>The tree with every pruned directory emptied.\<close>

fun strip :: "node \<Rightarrow> node" where
  "strip (File n r) = File n r"
| "strip (Dir n ds rerr) = (if pruned n then Dir n [] None else Dir n (map strip ds) rerr)"

text \<open>The visited entries with the source extension, those of them that can be read, and
  the matches the parser finds in the readable ones.\<close>

definition goFiles :: "(string \<times> bytes option) list \<Rightarrow> (string \<times> bytes option) list" where
  "goFiles fs = filter (\<lambda>f. Ext (fst f) = ''.go'') fs"

fun fileMatches :: "('d, 'f) env \<Rightarrow> string \<times> bytes option \<Rightarrow> match list" where
  "fileMatches env (p, None) = []"
| "fileMatches env (p, Some content) = Matches env content"

definition allMatches :: "('d, 'f) env \<Rightarrow> (string \<times> bytes option) list \<Rightarrow> match list" where
  "allMatches env fs = concat (map (fileMatches env) (goFiles fs))"

text \<open>The request posted for the chunk of a match, where \<open>M\<close> is the marshalling.\<close>

definition embedRequest :: "('d, 'f) env \<Rightarrow> (OllamaEmbedRequest \<Rightarrow> bytes) \<Rightarrow> match \<Rightarrow> string \<times> bytes" where
  "embedRequest env M m =
     (ollamaURL env, M \<lparr>Model = embeddingModel env, Input = funcBody (readCaptures m emptyChunk)\<rparr>)"

text \<open>The visited \<open>.go\<close> entries that can be read and those that cannot, the visited entries
  with another extension, and the points handed to the store between two states.\<close>

definition readable :: "(string \<times> bytes option) list \<Rightarrow> (string \<times> bytes option) list" where
  "readable fs = filter (\<lambda>f. snd f \<noteq> None) (goFiles fs)"

definition unreadable :: "(string \<times> bytes option) list \<Rightarrow> (string \<times> bytes option) list" where
  "unreadable fs = filter (\<lambda>f. snd f = None) (goFiles fs)"

definition otherFiles :: "(string \<times> bytes option) list \<Rightarrow> (string \<times> bytes option) list" where
  "otherFiles fs = filter (\<lambda>f. Ext (fst f) \<noteq> ''.go'') fs"

definition newUpserts :: "'f state \<Rightarrow> 'f state \<Rightarrow> 'f PointStruct list" where
  "newUpserts s s' = drop (length (upserts s)) (upserts s')"

text \<open>The upserts among the points \<open>ps\<close>, handed to the store in this order after the
  points \<open>hist\<close>, that the store accepts.\<close>

fun okUpserts :: "('d, 'f) env \<Rightarrow> 'f PointStruct list \<Rightarrow> 'f PointStruct list \<Rightarrow> nat" where
  "okUpserts env hist [] = 0"
| "okUpserts env hist (p # ps) =
     (if Upsert env hist p = None then 1 else 0) + okUpserts env (hist @ [p]) ps"

section \<open>Calls that never return\<close>

text \<open>No call of the handlers is bounded in time: \<^verbatim>\<open>os.ReadFile\<close> and \<^verbatim>\<open>http.Post\<close> take no
  deadline, and \<^verbatim>\<open>Upsert\<close> gets the request's context, on which the handler sets none. So
  \<^verbatim>\<open>os.ReadFile\<close> on a FIFO that nobody writes to, \<^verbatim>\<open>http.Post\<close> to an endpoint that never
  answers and an upsert that the store never answers do not return, and then the handler
  does not return either. The functions above give what a call returns
  when it returns. Which calls never return is a second part of the outside world:
  \<open>ReadBlocks\<close> for a path, \<open>PostBlocks\<close> and \<open>UpsertBlocks\<close> for a call after the calls made
  before it. Up to its first call that never returns, a run is the run computed above; so
  a run returns exactly when none of the calls in the logs computed above is one that
  never returns.\<close>

record 'f blocking =
  ReadBlocks :: "string \<Rightarrow> bool"
  PostBlocks :: "(string \<times> bytes) list \<Rightarrow> string \<Rightarrow> bytes \<Rightarrow> bool"
  UpsertBlocks :: "'f PointStruct list \<Rightarrow> 'f PointStruct \<Rightarrow> bool"

fun readsReturn :: "'f blocking \<Rightarrow> string list \<Rightarrow> bool" where
  "readsReturn B [] = True"
| "readsReturn B (p # ps) = (\<not> ReadBlocks B p \<and> readsReturn B ps)"

fun postsReturn :: "'f blocking \<Rightarrow> (string \<times> bytes) list \<Rightarrow> (string \<times> bytes) list \<Rightarrow> bool" where
  "postsReturn B hist [] = True"
| "postsReturn B hist (x # xs) =
     (\<not> PostBlocks B hist (fst x) (snd x) \<and> postsReturn B (hist @ [x]) xs)"

fun upsertsReturn :: "'f blocking \<Rightarrow> 'f PointStruct list \<Rightarrow> 'f PointStruct list \<Rightarrow> bool" where
  "upsertsReturn B hist [] = True"
| "upsertsReturn B hist (p # ps) = (\<not> UpsertBlocks B hist p \<and> upsertsReturn B (hist @ [p]) ps)"

text \<open>Every call made between state \<open>s\<close> and state \<open>s'\<close> returns.\<close>

definition callsReturn :: "'f blocking \<Rightarrow> 'f state \<Rightarrow> 'f state \<Rightarrow> bool" where
  "callsReturn B s s' =
     (readsReturn B (drop (length (reads s)) (reads s')) \<and>
      postsReturn B (posts s) (drop (length (posts s)) (posts s')) \<and>
      upsertsReturn B (upserts s) (drop (length (upserts s)) (upserts s')))"

text \<open>What the caller of \<^verbatim>\<open>index_project\<close> gets: the handler's result when the run returns,
  nothing when it does not.\<close>

definition indexProjectResult ::
  "'f blocking \<Rightarrow> ('d, 'f) env \<Rightarrow> CallToolRequest \<Rightarrow> 'f state \<Rightarrow> (tool_result \<times> error option) option" where
  "indexProjectResult B env request s =
     (case handleIndexProject env request s of
        (result, s') \<Rightarrow> if callsReturn B s s' then Some result else None)"

section \<open>An example environment\<close>

text \<open>A small executable stand-in for the outside world, used to run the model on concrete
  inputs. Its parser finds one function per byte of a file: the byte is the function's
  name and its index is the row. Its embedding endpoint refuses the body of function
  \<open>X\<close>, answers status 500 for \<open>S\<close> and an empty embeddings array for \<open>E\<close>; its store
  refuses function \<open>U\<close>.\<close>

definition exMatch :: "nat \<times> char \<Rightarrow> match" where
  "exMatch ic =
     [Capture ''func'' (TsNode (''func '' @ [snd ic]) (of_nat (fst ic)) (of_nat (fst ic))),
      Capture ''name'' (TsNode [snd ic] (of_nat (fst ic)) (of_nat (fst ic)))]"

definition exTree :: node where
  "exTree =
     Dir ''proj''
       [Dir ''.git'' [File ''hook.go'' (Some ''G'')] None,
        File ''README.md'' (Some ''R''),
        File ''a.go'' (Some ''FX''),
        File ''b.go'' None,
        Dir ''pkg''
          [File ''.c.go'' (Some ''U''),
           Dir ''vendor'' [File ''v.go'' (Some ''V'')] None] None,
        File ''z.go'' (Some ''Z'')] None"

definition exLocked :: node where
  "exLocked =
     Dir ''locked''
       [File ''a.go'' (Some ''F''),
        Dir ''private'' [] (Some (LibError ''permission denied'')),
        File ''z.go'' (Some ''Z'')] None"

definition exEnv :: "(int, int) env" where
  "exEnv =
     \<lparr>ollamaURL = ''http://localhost:11434'',
      embeddingModel = ''qwen3-embedding:8b'',
      Marshal = (\<lambda>r. Inr (Input r)),
      Post = (\<lambda>hist url body.
        if body = ''func X'' then Inl (LibError ''connection refused'')
        else if body = ''func S'' then Inr \<lparr>StatusCode = 500, Body = []\<rparr>
        else Inr \<lparr>StatusCode = 200, Body = body\<rparr>),
      Decode = (\<lambda>b. if b = ''func E'' then Inr \<lparr>Embeddings = []\<rparr>
                     else Inr \<lparr>Embeddings = [[int (length b), 7], [0]]\<rparr>),
      float32 = (\<lambda>x. x),
      Lstat = (\<lambda>p. if p = ''/proj'' then Inr exTree
                    else if p = ''/locked'' then Inr exLocked
                    else if p = ''/proj/.git'' then Inr (Dir ''.git'' [File ''hook.go'' (Some ''G'')] None)
                    else Inl (LibError ''no such file or directory'')),
      Join = (\<lambda>p n. p @ ''/'' @ n),
      Matches = (\<lambda>content. map exMatch (enumerate 0 content)),
      NewSHA1 = (\<lambda>ns name. ns @ name),
      Upsert = (\<lambda>hist p. if map_of (Payload p) ''function'' = Some (StringValue ''U'')
                           then Some (LibError ''unavailable'') else None),
      Query = (\<lambda>st v limit. Inr (take (unat limit) (map (\<lambda>(i, p). ScoredPoint (Payload p) 1) st))),
      LimitArg = (\<lambda>request. 20),
      FormatScore = (\<lambda>x. ''1.000'')\<rparr>"

text \<open>An outside world in which every call returns, and one in which \<open>/proj/z.go\<close> is a
  FIFO.\<close>

definition exReturns :: "int blocking" where
  "exReturns =
     \<lparr>ReadBlocks = (\<lambda>p. False), PostBlocks = (\<lambda>hist url body. False),
      UpsertBlocks = (\<lambda>hist p. False)\<rparr>"

definition exFifo :: "int blocking" where
  "exFifo = exReturns\<lparr>ReadBlocks := (\<lambda>p. p = ''/proj/z.go'')\<rparr>"

text \<open>The example environment with the embedding endpoint down: every request is refused.\<close>

definition exDown :: "(int, int) env" where
  "exDown = exEnv\<lparr>Post := (\<lambda>hist url body. Inl (LibError ''connection refused''))\<rparr>"

definition exState :: "int state" where
  "exState = \<lparr>stats = zeroStats, reads = [], posts = [], upserts = [], store = []\<rparr>"

section \<open>Effects of the handler's steps\<close>

text \<open>The embedding client touches nothing but the request log; indexing a match leaves the
  read log and the file and skip counters alone and adds exactly one to the sum of the
  indexed and failed counters.\<close>

lemma getOllamaEmbedding_frame:
  "stats (snd (getOllamaEmbedding env text s)) = stats s"
  "reads (snd (getOllamaEmbedding env text s)) = reads s"
  "upserts (snd (getOllamaEmbedding env text s)) = upserts s"
  "store (snd (getOllamaEmbedding env text s)) = store s"
  by (simp_all add: getOllamaEmbedding_def Let_def split: sum.splits list.splits)

lemma indexMatch_frame:
  "reads (indexMatch env path m s) = reads s"
  "Files (stats (indexMatch env path m s)) = Files (stats s)"
  "Skipped (stats (indexMatch env path m s)) = Skipped (stats s)"
  "Chunks (stats (indexMatch env path m s)) + Failed (stats (indexMatch env path m s)) =
     Chunks (stats s) + Failed (stats s) + 1"
proof -
  obtain r s1 where g: "getOllamaEmbedding env (funcBody (readCaptures m emptyChunk)) s = (r, s1)"
    by (cases "getOllamaEmbedding env (funcBody (readCaptures m emptyChunk)) s")
  have f: "stats s1 = stats s" "reads s1 = reads s"
    using getOllamaEmbedding_frame(1,2)[of env "funcBody (readCaptures m emptyChunk)" s] g by simp_all
  show "reads (indexMatch env path m s) = reads s"
    using g f by (simp add: indexMatch_def Let_def incFailed_def incChunks_def split: sum.splits option.splits)
  show "Files (stats (indexMatch env path m s)) = Files (stats s)"
    using g f by (simp add: indexMatch_def Let_def incFailed_def incChunks_def split: sum.splits option.splits)
  show "Skipped (stats (indexMatch env path m s)) = Skipped (stats s)"
    using g f by (simp add: indexMatch_def Let_def incFailed_def incChunks_def split: sum.splits option.splits)
  show "Chunks (stats (indexMatch env path m s)) + Failed (stats (indexMatch env path m s)) =
     Chunks (stats s) + Failed (stats s) + 1"
    using g f by (simp add: indexMatch_def Let_def incFailed_def incChunks_def split: sum.splits option.splits)
qed

lemma indexMatches_frame:
  "reads (indexMatches env path ms s) = reads s"
  "Files (stats (indexMatches env path ms s)) = Files (stats s)"
  "Skipped (stats (indexMatches env path ms s)) = Skipped (stats s)"
  "Chunks (stats (indexMatches env path ms s)) + Failed (stats (indexMatches env path ms s)) =
     Chunks (stats s) + Failed (stats s) + int (length ms)"
proof (induction ms arbitrary: s)
  case Nil
  { case 1 show ?case by simp }
  { case 2 show ?case by simp }
  { case 3 show ?case by simp }
  { case 4 show ?case by simp }
next
  case (Cons m ms)
  { case 1 show ?case by (simp add: Cons.IH(1) indexMatch_frame(1)) }
  { case 2 show ?case by (simp add: Cons.IH(2) indexMatch_frame(2)) }
  { case 3 show ?case by (simp add: Cons.IH(3) indexMatch_frame(3)) }
  { case 4 show ?case using Cons.IH(4)[of "indexMatch env path m s"] indexMatch_frame(4)[of env path m s] by simp }
qed

lemma getOllamaEmbedding_posts:
  assumes "\<And>r. Marshal env r = Inr (M r)"
  shows "posts (snd (getOllamaEmbedding env text s)) =
           posts s @ [(ollamaURL env, M \<lparr>Model = embeddingModel env, Input = text\<rparr>)]"
  using assms by (simp add: getOllamaEmbedding_def Let_def split: sum.splits list.splits)

lemma indexMatch_posts:
  assumes "\<And>r. Marshal env r = Inr (M r)"
  shows "posts (indexMatch env path m s) =
           posts s @ [(ollamaURL env,
             M \<lparr>Model = embeddingModel env, Input = funcBody (readCaptures m emptyChunk)\<rparr>)]"
proof -
  obtain r s1 where g: "getOllamaEmbedding env (funcBody (readCaptures m emptyChunk)) s = (r, s1)"
    by (cases "getOllamaEmbedding env (funcBody (readCaptures m emptyChunk)) s")
  have "posts s1 = posts s @ [(ollamaURL env,
             M \<lparr>Model = embeddingModel env, Input = funcBody (readCaptures m emptyChunk)\<rparr>)]"
    using getOllamaEmbedding_posts[OF assms, of "funcBody (readCaptures m emptyChunk)" s] g by simp
  then show ?thesis
    using g by (simp add: indexMatch_def Let_def incFailed_def incChunks_def split: sum.splits option.splits)
qed

lemma indexMatches_posts:
  assumes "\<And>r. Marshal env r = Inr (M r)"
  shows "posts (indexMatches env path ms s) = posts s @ map (embedRequest env M) ms"
  by (induction ms arbitrary: s) (simp_all add: indexMatch_posts[OF assms] embedRequest_def)

text \<open>What visiting a list of entries does to the read log and to the counters.\<close>

lemma visitFile_effects:
  "reads (visitFile env p r s) = reads s @ map fst (goFiles [(p, r)])"
  "Skipped (stats (visitFile env p r s)) =
     Skipped (stats s) + int (length (filter (\<lambda>f. Ext (fst f) \<noteq> ''.go'') [(p, r)]))"
  "Files (stats (visitFile env p r s)) =
     Files (stats s) + int (length (filter (\<lambda>f. snd f \<noteq> None) (goFiles [(p, r)])))"
  "Chunks (stats (visitFile env p r s)) + Failed (stats (visitFile env p r s)) =
     Chunks (stats s) + Failed (stats s)
     + int (length (filter (\<lambda>f. snd f = None) (goFiles [(p, r)])))
     + int (length (allMatches env [(p, r)]))"
  by (simp_all add: visitFile_def goFiles_def allMatches_def indexMatches_frame
        incSkipped_def incFailed_def incFiles_def split: option.splits)

lemma goFiles_Cons: "goFiles (f # fs) = goFiles [f] @ goFiles fs"
  by (simp add: goFiles_def)

lemma allMatches_Cons: "allMatches env (f # fs) = allMatches env [f] @ allMatches env fs"
  by (simp add: allMatches_def goFiles_def)

lemma visitFiles_effects:
  "reads (visitFiles env fs s) = reads s @ map fst (goFiles fs)"
  "Skipped (stats (visitFiles env fs s)) =
     Skipped (stats s) + int (length (filter (\<lambda>f. Ext (fst f) \<noteq> ''.go'') fs))"
  "Files (stats (visitFiles env fs s)) =
     Files (stats s) + int (length (filter (\<lambda>f. snd f \<noteq> None) (goFiles fs)))"
  "Chunks (stats (visitFiles env fs s)) + Failed (stats (visitFiles env fs s)) =
     Chunks (stats s) + Failed (stats s)
     + int (length (filter (\<lambda>f. snd f = None) (goFiles fs)))
     + int (length (allMatches env fs))"
proof (induction fs arbitrary: s)
  case Nil
  { case 1 show ?case by (simp add: goFiles_def) }
  { case 2 show ?case by simp }
  { case 3 show ?case by (simp add: goFiles_def) }
  { case 4 show ?case by (simp add: goFiles_def allMatches_def) }
next
  case (Cons f fs)
  obtain p r where f: "f = (p, r)" by (cases f)
  { case 1
    show ?case
      using Cons.IH(1)[of "visitFile env p r s"] visitFile_effects(1)[of env p r s]
      by (simp add: f goFiles_Cons[of "(p, r)" fs]) }
  { case 2
    show ?case
      using Cons.IH(2)[of "visitFile env p r s"] visitFile_effects(2)[of env p r s]
      by (simp add: f) }
  { case 3
    show ?case
      using Cons.IH(3)[of "visitFile env p r s"] visitFile_effects(3)[of env p r s]
      by (simp add: f goFiles_Cons[of "(p, r)" fs]) }
  { case 4
    show ?case
      using Cons.IH(4)[of "visitFile env p r s"] visitFile_effects(4)[of env p r s]
      by (simp add: f goFiles_Cons[of "(p, r)" fs] allMatches_Cons[of env "(p, r)" fs]) }
qed

lemma visitFiles_posts:
  assumes "\<And>r. Marshal env r = Inr (M r)"
  shows "posts (visitFiles env fs s) = posts s @ map (embedRequest env M) (allMatches env fs)"
proof (induction fs arbitrary: s)
  case Nil
  show ?case by (simp add: allMatches_def goFiles_def)
next
  case (Cons f fs)
  obtain p r where f: "f = (p, r)" by (cases f)
  have "posts (visitFile env p r s) = posts s @ map (embedRequest env M) (allMatches env [(p, r)])"
    by (simp add: visitFile_def allMatches_def goFiles_def indexMatches_posts[OF assms]
          incSkipped_def incFailed_def incFiles_def split: option.splits)
  then show ?case
    using Cons.IH[of "visitFile env p r s"]
    by (simp add: f allMatches_Cons[of env "(p, r)" fs])
qed

lemma visitFiles_append:
  "visitFiles env (fs @ gs) s = visitFiles env gs (visitFiles env fs s)"
  by (induction fs arbitrary: s) auto

text \<open>What a match, a run of matches, a visit and a list of visits send to the store: at most one point per match, the indexed counter growing by
  the points the store accepted.\<close>

lemma okUpserts_append:
  "okUpserts env hist (ps @ qs) = okUpserts env hist ps + okUpserts env (hist @ ps) qs"
  by (induction ps arbitrary: hist) simp_all

lemma indexMatch_upserts:
  fixes env :: "('d, 'f) env"
  shows "\<exists>ps. upserts (indexMatch env path m s) = upserts s @ ps \<and> length ps \<le> 1 \<and>
        Chunks (stats (indexMatch env path m s)) =
          Chunks (stats s) + int (okUpserts env (upserts s) ps)"
proof -
  obtain r s1 where g: "getOllamaEmbedding env (funcBody (readCaptures m emptyChunk)) s = (r, s1)"
    by (cases "getOllamaEmbedding env (funcBody (readCaptures m emptyChunk)) s")
  have f: "stats s1 = stats s" "upserts s1 = upserts s"
    using getOllamaEmbedding_frame(1,3)[of env "funcBody (readCaptures m emptyChunk)" s] g by simp_all
  show ?thesis
  proof (cases r)
    case (Inl e)
    then have "indexMatch env path m s = incFailed s1"
      using g by (simp add: indexMatch_def)
    then have "upserts (indexMatch env path m s) = upserts s @ [] \<and> length ([] :: 'f PointStruct list) \<le> 1 \<and>
        Chunks (stats (indexMatch env path m s)) = Chunks (stats s) + int (okUpserts env (upserts s) [])"
      using f by (simp add: incFailed_def)
    then show ?thesis by (rule exI[where x = "[]"])
  next
    case (Inr v)
    let ?p = "chunkPoint env path (readCaptures m emptyChunk) v"
    have "upserts (indexMatch env path m s) = upserts s @ [?p] \<and> length [?p] \<le> 1 \<and>
        Chunks (stats (indexMatch env path m s)) = Chunks (stats s) + int (okUpserts env (upserts s) [?p])"
      using g f Inr
      by (simp add: indexMatch_def Let_def incFailed_def incChunks_def split: option.splits)
    then show ?thesis by (rule exI[where x = "[?p]"])
  qed
qed

lemma indexMatches_upserts:
  fixes env :: "('d, 'f) env"
  shows "\<exists>ps. upserts (indexMatches env path ms s) = upserts s @ ps \<and> length ps \<le> length ms \<and>
        Chunks (stats (indexMatches env path ms s)) =
          Chunks (stats s) + int (okUpserts env (upserts s) ps)"
proof (induction ms arbitrary: s)
  case Nil
  have "upserts (indexMatches env path [] s) = upserts s @ [] \<and>
        length ([] :: 'f PointStruct list) \<le> length ([] :: match list) \<and>
        Chunks (stats (indexMatches env path [] s)) = Chunks (stats s) + int (okUpserts env (upserts s) [])"
    by simp
  then show ?case by (rule exI[where x = "[]"])
next
  case (Cons m ms)
  obtain ps where 1: "upserts (indexMatch env path m s) = upserts s @ ps" "length ps \<le> 1"
    "Chunks (stats (indexMatch env path m s)) = Chunks (stats s) + int (okUpserts env (upserts s) ps)"
    using indexMatch_upserts[of env path m s] by (elim exE conjE)
  obtain qs where 2: "upserts (indexMatches env path ms (indexMatch env path m s)) =
      upserts (indexMatch env path m s) @ qs" "length qs \<le> length ms"
    "Chunks (stats (indexMatches env path ms (indexMatch env path m s))) =
      Chunks (stats (indexMatch env path m s)) + int (okUpserts env (upserts (indexMatch env path m s)) qs)"
    using Cons.IH[of "indexMatch env path m s"] by (elim exE conjE)
  have "upserts (indexMatches env path (m # ms) s) = upserts s @ (ps @ qs) \<and>
        length (ps @ qs) \<le> length (m # ms) \<and>
        Chunks (stats (indexMatches env path (m # ms) s)) =
          Chunks (stats s) + int (okUpserts env (upserts s) (ps @ qs))"
    using 1 2 by (simp add: okUpserts_append)
  then show ?case by (rule exI[where x = "ps @ qs"])
qed

lemma visitFile_upserts:
  fixes env :: "('d, 'f) env"
  shows "\<exists>ps. upserts (visitFile env p r s) = upserts s @ ps \<and>
        length ps \<le> length (allMatches env [(p, r)]) \<and>
        Chunks (stats (visitFile env p r s)) = Chunks (stats s) + int (okUpserts env (upserts s) ps)"
proof (cases "Ext p = ''.go'' \<and> r \<noteq> None")
  case True
  then obtain content where r: "r = Some content" by auto
  let ?s0 = "incFiles (s\<lparr>reads := reads s @ [p]\<rparr>)"
  have v: "visitFile env p r s = indexMatches env p (Matches env content) ?s0"
    using True r by (simp add: visitFile_def)
  have a: "allMatches env [(p, r)] = Matches env content"
    using True r by (simp add: allMatches_def goFiles_def)
  have u: "upserts ?s0 = upserts s" "Chunks (stats ?s0) = Chunks (stats s)"
    by (simp_all add: incFiles_def)
  show ?thesis
    using indexMatches_upserts[of env p "Matches env content" ?s0] unfolding v a u .
next
  case False
  then have "upserts (visitFile env p r s) = upserts s @ [] \<and>
        length ([] :: 'f PointStruct list) \<le> length (allMatches env [(p, r)]) \<and>
        Chunks (stats (visitFile env p r s)) = Chunks (stats s) + int (okUpserts env (upserts s) [])"
    by (auto simp add: visitFile_def incSkipped_def incFailed_def)
  then show ?thesis by (rule exI[where x = "[]"])
qed

lemma visitFiles_upserts:
  fixes env :: "('d, 'f) env"
  shows "\<exists>ps. upserts (visitFiles env fs s) = upserts s @ ps \<and>
        length ps \<le> length (allMatches env fs) \<and>
        Chunks (stats (visitFiles env fs s)) = Chunks (stats s) + int (okUpserts env (upserts s) ps)"
proof (induction fs arbitrary: s)
  case Nil
  have "upserts (visitFiles env [] s) = upserts s @ [] \<and>
        length ([] :: 'f PointStruct list) \<le> length (allMatches env []) \<and>
        Chunks (stats (visitFiles env [] s)) = Chunks (stats s) + int (okUpserts env (upserts s) [])"
    by simp
  then show ?case by (rule exI[where x = "[]"])
next
  case (Cons f fs)
  obtain p r where f: "f = (p, r)" by (cases f)
  obtain ps where 1: "upserts (visitFile env p r s) = upserts s @ ps"
    "length ps \<le> length (allMatches env [(p, r)])"
    "Chunks (stats (visitFile env p r s)) = Chunks (stats s) + int (okUpserts env (upserts s) ps)"
    using visitFile_upserts[of env p r s] by (elim exE conjE)
  obtain qs where 2: "upserts (visitFiles env fs (visitFile env p r s)) = upserts (visitFile env p r s) @ qs"
    "length qs \<le> length (allMatches env fs)"
    "Chunks (stats (visitFiles env fs (visitFile env p r s))) =
       Chunks (stats (visitFile env p r s)) + int (okUpserts env (upserts (visitFile env p r s)) qs)"
    using Cons.IH[of "visitFile env p r s"] by (elim exE conjE)
  have "upserts (visitFiles env (f # fs) s) = upserts s @ (ps @ qs) \<and>
        length (ps @ qs) \<le> length (allMatches env (f # fs)) \<and>
        Chunks (stats (visitFiles env (f # fs) s)) =
          Chunks (stats s) + int (okUpserts env (upserts s) (ps @ qs))"
    using 1 2 by (simp add: f okUpserts_append allMatches_Cons[of env "(p, r)" fs])
  then show ?case by (rule exI[where x = "ps @ qs"])
qed

section \<open>The walk as traversal followed by visits\<close>

text \<open>The two cases of \<open>walkDir\<close> with the walk function unfolded, and the walk as a whole:
  its error is the traversal's, its final state is the visit of the traversed entries in
  order.\<close>

lemma walkDir_File: "walkDir env path (File n r) s = (None, visitFile env path r s)"
  by (simp add: walkDirFn_def visitFile_def split: option.splits)

lemma walkDir_Dir:
  "walkDir env path (Dir n ds rerr) s =
     (if pruned n then (None, s)
      else case rerr of
             None \<Rightarrow> walkEntries env path ds s
           | Some e \<Rightarrow> (if e = SkipDir then None else Some e, s))"
  by (simp add: walkDirFn_def pruned_def split: option.splits)

declare walkDir.simps [simp del]

lemma walk_visit:
  "walkDir env path t s =
     (snd (visit (Join env) path t), visitFiles env (fst (visit (Join env) path t)) s)"
  "walkEntries env path ts s =
     (snd (visits (Join env) path ts), visitFiles env (fst (visits (Join env) path ts)) s)"
proof (induction env path t s and env path ts s rule: walkDir_walkEntries.induct)
  case (1 env path n r s)
  show ?case by (simp only: walkDir_File visit.simps fst_conv snd_conv visitFiles.simps)
next
  case (2 env path n dirs rerr s)
  show ?case
  proof (cases "pruned n")
    case True
    then show ?thesis by (simp only: walkDir_Dir visit.simps if_True fst_conv snd_conv visitFiles.simps)
  next
    case False
    show ?thesis
    proof (cases rerr)
      case None
      have "walkDirFn env path (Some (Dir n dirs rerr)) None s = (None, s)"
        using False by (simp add: walkDirFn_def pruned_def)
      from "2.IH"(1)[OF this[symmetric] refl None]
      show ?thesis using False None by (simp only: walkDir_Dir visit.simps if_False option.case)
    next
      case (Some e)
      then show ?thesis using False
        by (simp only: walkDir_Dir visit.simps if_False option.case fst_conv snd_conv visitFiles.simps)
    qed
  qed
next
  case (3 env path s)
  show ?case by simp
next
  case (4 env path d1 ds s)
  obtain fs r where v: "visit (Join env) (Join env path (Name d1)) d1 = (fs, r)"
    by (cases "visit (Join env) (Join env path (Name d1)) d1")
  obtain gs r' where vs: "visits (Join env) path ds = (gs, r')"
    by (cases "visits (Join env) path ds")
  have w: "walkDir env (Join env path (Name d1)) d1 s = (r, visitFiles env fs s)"
    using "4.IH"(1) v by simp
  show ?case
  proof (cases r)
    case None
    from "4.IH"(2)[OF w[symmetric, unfolded None] refl]
    show ?thesis using w v vs None by (simp add: visitFiles_append)
  next
    case (Some e)
    then show ?thesis using w v by simp
  qed
qed

lemma Name_strip: "Name (strip t) = Name t"
  by (cases t) simp_all

lemma visit_strip:
  "visit J path (strip t) = visit J path t"
  "visits J path (map strip ts) = visits J path ts"
proof (induction J path t and J path ts rule: visit_visits.induct)
  case (1 J path n r)
  show ?case by simp
next
  case (2 J path n ds rerr)
  then show ?case by (cases rerr) simp_all
next
  case (3 J path)
  show ?case by simp
next
  case (4 J path d ds)
  obtain fs r where v: "visit J (J path (Name d)) d = (fs, r)"
    by (cases "visit J (J path (Name d)) d")
  show ?case
  proof (cases r)
    case None
    with v 4 show ?thesis by (simp add: Name_strip)
  next
    case (Some e)
    with v 4 show ?thesis by (simp add: Name_strip)
  qed
qed

text \<open>The walk never consults \<open>Lstat\<close>.\<close>

lemma getOllamaEmbedding_Lstat:
  "getOllamaEmbedding (env\<lparr>Lstat := f\<rparr>) text s = getOllamaEmbedding env text s"
  by (simp add: getOllamaEmbedding_def Let_def split: sum.splits list.splits)

lemma indexMatches_Lstat:
  "indexMatches (env\<lparr>Lstat := f\<rparr>) path ms s = indexMatches env path ms s"
  by (induction ms arbitrary: s)
    (simp_all add: indexMatch_def getOllamaEmbedding_Lstat chunkPoint_def uniqueID_def Let_def
       split: sum.splits prod.splits option.splits)

lemma visitFiles_Lstat: "visitFiles (env\<lparr>Lstat := f\<rparr>) fs s = visitFiles env fs s"
  by (induction fs arbitrary: s) (auto simp add: visitFile_def indexMatches_Lstat split: option.splits)

lemma walkDir_Lstat: "walkDir (env\<lparr>Lstat := f\<rparr>) path t s = walkDir env path t s"
  by (simp add: walk_visit(1) visitFiles_Lstat)

lemma walkDirFn_Lstat:
  "walkDirFn (env\<lparr>Lstat := f\<rparr>) path None (Some e) s = walkDirFn env path None (Some e) s"
  by (simp add: walkDirFn_def)

text \<open>The counters and logs at the end of a walk, and a world in which no call blocks.\<close>

lemma walk_counters:
  fixes env :: "('d, 'f) env" and s :: "'f state" and path :: string and t :: node
  defines "s' \<equiv> snd (walkDir env path t s)"
    and "fs \<equiv> fst (visit (Join env) path t)"
  shows "reads s' = reads s @ map fst (goFiles fs)"
    and "Files (stats s') = Files (stats s) + int (length (readable fs))"
    and "Skipped (stats s') = Skipped (stats s) + int (length (otherFiles fs))"
    and "upserts s' = upserts s @ newUpserts s s'"
    and "length (newUpserts s s') \<le> length (allMatches env fs)"
    and "Chunks (stats s') = Chunks (stats s) + int (okUpserts env (upserts s) (newUpserts s s'))"
    and "Failed (stats s') =
           Failed (stats s) + int (length (unreadable fs)) + int (length (allMatches env fs))
           - int (okUpserts env (upserts s) (newUpserts s s'))"
proof -
  have e: "s' = visitFiles env fs s"
    by (simp add: s'_def fs_def walk_visit(1))
  obtain ps where ps: "upserts s' = upserts s @ ps" "length ps \<le> length (allMatches env fs)"
    "Chunks (stats s') = Chunks (stats s) + int (okUpserts env (upserts s) ps)"
    using visitFiles_upserts[of env fs s] unfolding e by (elim exE conjE)
  have n: "newUpserts s s' = ps"
    using ps(1) by (simp add: newUpserts_def)
  show "reads s' = reads s @ map fst (goFiles fs)"
    unfolding e by (rule visitFiles_effects(1))
  show "Files (stats s') = Files (stats s) + int (length (readable fs))"
    unfolding e readable_def by (rule visitFiles_effects(3))
  show "Skipped (stats s') = Skipped (stats s) + int (length (otherFiles fs))"
    unfolding e otherFiles_def by (rule visitFiles_effects(2))
  show "upserts s' = upserts s @ newUpserts s s'"
    using ps(1) n by simp
  show "length (newUpserts s s') \<le> length (allMatches env fs)"
    using ps(2) n by simp
  show c: "Chunks (stats s') = Chunks (stats s) + int (okUpserts env (upserts s) (newUpserts s s'))"
    using ps(3) n by simp
  have "Chunks (stats s') + Failed (stats s') =
     Chunks (stats s) + Failed (stats s) + int (length (unreadable fs)) + int (length (allMatches env fs))"
    unfolding e unreadable_def by (rule visitFiles_effects(4))
  then show "Failed (stats s') =
           Failed (stats s) + int (length (unreadable fs)) + int (length (allMatches env fs))
           - int (okUpserts env (upserts s) (newUpserts s s'))"
    using c by simp
qed

lemma returns_when_nothing_blocks:
  assumes "\<forall>p. \<not> ReadBlocks B p" and "\<forall>hist url body. \<not> PostBlocks B hist url body"
    and "\<forall>hist p. \<not> UpsertBlocks B hist p"
  shows "callsReturn B s s'"
proof -
  have "readsReturn B ps" for ps
    using assms(1) by (induction ps) simp_all
  moreover have "postsReturn B hist xs" for hist xs
    using assms(2) by (induction xs arbitrary: hist) simp_all
  moreover have "upsertsReturn B hist ps" for hist ps
    using assms(3) by (induction ps arbitrary: hist) simp_all
  ultimately show ?thesis by (simp add: callsReturn_def)
qed

section \<open>Runs of the example environment\<close>

lemma digits_0: "digits 0 = ''0''"
  by (simp add: digits.simps)

lemma digits_1: "digits (Suc 0) = ''1''"
  by (simp add: digits.simps)

lemma show_int_0: "show_int 0 = ''0''"
  by (simp add: show_int_def digits_0)

lemma report_zero:
  "report zeroStats =
     ''Indexing Complete.'' @ [CHR 0x0A] @ ''Files Scanned: 0'' @ [CHR 0x0A] @
     ''Functions Indexed: 0'' @ [CHR 0x0A] @ ''Failed/Skipped: 0/0''"
  by (simp add: report_def zeroStats_def show_int_def digits_0)

lemma ex_state_zero: "exState\<lparr>stats := zeroStats\<rparr> = exState"
  by (simp add: exState_def)

lemmas ex_defs =
  exEnv_def exState_def exTree_def exLocked_def exMatch_def zeroStats_def
  walkDir_File walkDir_Dir visitFile_def indexMatch_def getOllamaEmbedding_def
  chunkPoint_def chunkPayload_def uniqueID_def uuidName_def NameSpaceURL_def emptyChunk_def
  incFailed_def incChunks_def incFiles_def incSkipped_def
  pruned_def HasPrefix_def Ext_def Let_def

lemma ex_embedding:
  "getOllamaEmbedding exEnv ''find F'' exState =
     (Inr [6, 7], exState\<lparr>posts := [(''http://localhost:11434'', ''find F'')]\<rparr>)"
  by (simp add: getOllamaEmbedding_def exEnv_def exState_def Let_def)

lemma ex_locked_walk:
  "WalkDir exEnv ''/locked'' exState =
     (Some (LibError ''permission denied''),
      \<lparr>stats = \<lparr>Files = 1, Chunks = 1, Skipped = 0, Failed = 0\<rparr>,
       reads = [''/locked/a.go''],
       posts = [(''http://localhost:11434'', ''func F'')],
       upserts = [\<lparr>Id = ''6ba7b811-9dad-11d1-80b4-00c04fd430c8/locked/a.go:F'', Vectors = [6, 7],
                   Payload = [(''file_path'', StringValue ''/locked/a.go''), (''function'', StringValue ''F''),
                     (''line_start'', IntegerValue 1), (''line_end'', IntegerValue 1),
                     (''code_snippet'', StringValue ''func F'')]\<rparr>],
       store = [(''6ba7b811-9dad-11d1-80b4-00c04fd430c8/locked/a.go:F'',
                 \<lparr>Id = ''6ba7b811-9dad-11d1-80b4-00c04fd430c8/locked/a.go:F'', Vectors = [6, 7],
                   Payload = [(''file_path'', StringValue ''/locked/a.go''), (''function'', StringValue ''F''),
                     (''line_start'', IntegerValue 1), (''line_end'', IntegerValue 1),
                     (''code_snippet'', StringValue ''func F'')]\<rparr>)]\<rparr>)"
  by (simp add: WalkDir_def ex_defs enumerate_eq_zip)

lemma ex_proj_walk:
  "walkDir exEnv ''/proj'' exTree exState =
     (None,
      \<lparr>stats = \<lparr>Files = 3, Chunks = 2, Skipped = 1, Failed = 3\<rparr>,
       reads = [''/proj/a.go'', ''/proj/b.go'', ''/proj/pkg/.c.go'', ''/proj/z.go''],
       posts = [(''http://localhost:11434'', ''func F''), (''http://localhost:11434'', ''func X''),
                (''http://localhost:11434'', ''func U''), (''http://localhost:11434'', ''func Z'')],
       upserts =
         [\<lparr>Id = ''6ba7b811-9dad-11d1-80b4-00c04fd430c8/proj/a.go:F'', Vectors = [6, 7],
            Payload = [(''file_path'', StringValue ''/proj/a.go''), (''function'', StringValue ''F''),
              (''line_start'', IntegerValue 1), (''line_end'', IntegerValue 1),
              (''code_snippet'', StringValue ''func F'')]\<rparr>,
          \<lparr>Id = ''6ba7b811-9dad-11d1-80b4-00c04fd430c8/proj/pkg/.c.go:U'', Vectors = [6, 7],
            Payload = [(''file_path'', StringValue ''/proj/pkg/.c.go''), (''function'', StringValue ''U''),
              (''line_start'', IntegerValue 1), (''line_end'', IntegerValue 1),
              (''code_snippet'', StringValue ''func U'')]\<rparr>,
          \<lparr>Id = ''6ba7b811-9dad-11d1-80b4-00c04fd430c8/proj/z.go:Z'', Vectors = [6, 7],
            Payload = [(''file_path'', StringValue ''/proj/z.go''), (''function'', StringValue ''Z''),
              (''line_start'', IntegerValue 1), (''line_end'', IntegerValue 1),
              (''code_snippet'', StringValue ''func Z'')]\<rparr>],
       store =
         [(''6ba7b811-9dad-11d1-80b4-00c04fd430c8/proj/a.go:F'',
           \<lparr>Id = ''6ba7b811-9dad-11d1-80b4-00c04fd430c8/proj/a.go:F'', Vectors = [6, 7],
            Payload = [(''file_path'', StringValue ''/proj/a.go''), (''function'', StringValue ''F''),
              (''line_start'', IntegerValue 1), (''line_end'', IntegerValue 1),
              (''code_snippet'', StringValue ''func F'')]\<rparr>),
          (''6ba7b811-9dad-11d1-80b4-00c04fd430c8/proj/z.go:Z'',
           \<lparr>Id = ''6ba7b811-9dad-11d1-80b4-00c04fd430c8/proj/z.go:Z'', Vectors = [6, 7],
            Payload = [(''file_path'', StringValue ''/proj/z.go''), (''function'', StringValue ''Z''),
              (''line_start'', IntegerValue 1), (''line_end'', IntegerValue 1),
              (''code_snippet'', StringValue ''func Z'')]\<rparr>)]\<rparr>)"
  by (simp add: ex_defs enumerate_eq_zip)

lemma ex_proj_visit:
  "visit (Join exEnv) ''/proj'' exTree =
     ([(''/proj/README.md'', Some ''R''), (''/proj/a.go'', Some ''FX''), (''/proj/b.go'', None),
       (''/proj/pkg/.c.go'', Some ''U''), (''/proj/z.go'', Some ''Z'')], None)"
  by (simp add: exEnv_def exTree_def pruned_def HasPrefix_def)

lemma ex_index_then_search:
  "fst (codebase_search exEnv [(''query'', ArgString ''find F'')]
         (snd (handleIndexProject exEnv [(''path'', ArgString ''/locked'')] exState))) =
     (ToolResultText
        (''File: /locked/a.go (Line: 0)'' @ [CHR 0x0A] @ ''Score: 1.000'' @ [CHR 0x0A] @
         ''```go'' @ [CHR 0x0A] @ ''func F'' @ [CHR 0x0A] @ ''```'' @ [CHR 0x0A, CHR 0x0A] @
         ''---'' @ [CHR 0x0A]), None) \<and>
   map (\<lambda>p. map_of (Payload (snd p)) ''line_start'')
     (store (snd (handleIndexProject exEnv [(''path'', ArgString ''/locked'')] exState))) =
     [Some (IntegerValue 1)]"
proof -
  have 1: "RequireString [(''path'', ArgString ''/locked'')] ''path'' = Inr ''/locked''"
    by (simp add: RequireString.simps)
  have i: "snd (handleIndexProject exEnv [(''path'', ArgString ''/locked'')] exState) =
             snd (WalkDir exEnv ''/locked'' exState)"
    using 1 by (simp add: handleIndexProject_def ex_state_zero split: prod.splits)
  have q: "RequireString [(''query'', ArgString ''find F'')] ''query'' = Inr ''find F''"
    by (simp add: RequireString.simps)
  show ?thesis
    unfolding i ex_locked_walk
    by (simp add: codebase_search_def q getOllamaEmbedding_def exEnv_def Let_def
          renderPoint_def show_int_0)
qed

lemma digits_lt10: "n < 10 \<Longrightarrow> digits n = [''0123456789'' ! n]"
  by (simp add: digits.simps)

lemma show_int_small:
  "show_int 1 = ''1''" "show_int 2 = ''2''" "show_int 3 = ''3''" "show_int 5 = ''5''"
  by (simp_all add: show_int_def digits_lt10)

lemma ex_proj_handle:
  "snd (handleIndexProject exEnv [(''path'', ArgString ''/proj'')] exState) =
     snd (walkDir exEnv ''/proj'' exTree exState)"
  by (simp add: handleIndexProject_def RequireString.simps WalkDir_def ex_state_zero exEnv_def
        split: prod.splits)

lemma ex_down_walk:
  "WalkDir exDown ''/proj'' exState =
     (None,
      \<lparr>stats = \<lparr>Files = 3, Chunks = 0, Skipped = 1, Failed = 5\<rparr>,
       reads = [''/proj/a.go'', ''/proj/b.go'', ''/proj/pkg/.c.go'', ''/proj/z.go''],
       posts = [(''http://localhost:11434'', ''func F''), (''http://localhost:11434'', ''func X''),
                (''http://localhost:11434'', ''func U''), (''http://localhost:11434'', ''func Z'')],
       upserts = [], store = []\<rparr>)"
  by (simp add: WalkDir_def walkDirFn_def exDown_def ex_defs enumerate_eq_zip)

lemma ex_nowhere_walk:
  "WalkDir exEnv ''/nowhere'' exState = (Some (LibError ''no such file or directory''), exState)"
  by (simp add: WalkDir_def walkDirFn_def exEnv_def)

lemma ex_requests:
  "RequireString [(''path'', ArgString p)] ''path'' = Inr p"
  by (simp add: RequireString.simps)

lemma ex_returns:
  "(\<forall>p. \<not> ReadBlocks exReturns p) \<and> (\<forall>hist url body. \<not> PostBlocks exReturns hist url body) \<and>
   (\<forall>hist p. \<not> UpsertBlocks exReturns hist p)"
  by (simp add: exReturns_def)

section \<open>Rendering of search results\<close>

lemma render_indexed_point:
  "renderPoint env (ScoredPoint (chunkPayload path c) score) =
     ''File: '' @ path @ '' (Line: 0)'' @ [CHR 0x0A] @
     ''Score: '' @ FormatScore env score @ [CHR 0x0A] @
     ''```go'' @ [CHR 0x0A] @ funcBody c @ [CHR 0x0A] @ ''```'' @ [CHR 0x0A, CHR 0x0A] @
     ''---'' @ [CHR 0x0A] \<and>
   map_of (chunkPayload path c) ''line_start'' = Some (IntegerValue (ucast (startLine c))) \<and>
   map_of (chunkPayload path c) ''line_number'' = None"
  by (simp add: renderPoint_def chunkPayload_def show_int_0)

lemma renderPoints_concat:
  "renderPoints env points acc = acc @ concat (map (renderPoint env) points)"
  by (induction points arbitrary: acc) simp_all

lemma renderPoint_head: "\<exists>rest. renderPoint env point = CHR ''F'' # rest"
  by (simp add: renderPoint_def Let_def)

lemma renderPoints_nonempty:
  "concat (map (renderPoint env) (point # points)) \<noteq> [] \<and>
   concat (map (renderPoint env) (point # points)) \<noteq> ''No relevant code found.''"
proof -
  obtain rest where "renderPoint env point = CHR ''F'' # rest"
    using renderPoint_head by blast
  then show ?thesis by simp
qed

text \<open>C1. Claimed: every indexed point that a search returns is rendered with its file path, its
  stored start line, its score and its snippet, blocks in the store's order. The code
  renders path, score and snippet of the indexer's payload, in the order the store returns
  the points, but the line it prints is always 0: the indexer stores the start line under
  \<open>line_start\<close>, the search handler reads \<open>line_number\<close>, which no point carries. The last
  two conjuncts run the example: a function on the first line of \<open>/locked/a.go\<close> is stored
  with \<open>line_start = 1\<close> and comes back as \<open>(Line: 0)\<close>.\<close>

theorem search_renders_line_zero:
  "renderPoint env (ScoredPoint (chunkPayload path c) score) =
     ''File: '' @ path @ '' (Line: 0)'' @ [CHR 0x0A] @
     ''Score: '' @ FormatScore env score @ [CHR 0x0A] @
     ''```go'' @ [CHR 0x0A] @ funcBody c @ [CHR 0x0A] @ ''```'' @ [CHR 0x0A, CHR 0x0A] @
     ''---'' @ [CHR 0x0A] \<and>
   map_of (chunkPayload path c) ''line_start'' = Some (IntegerValue (ucast (startLine c))) \<and>
   map_of (chunkPayload path c) ''line_number'' = None \<and>
   renderPoints env points [] = concat (map (renderPoint env) points) \<and>
   fst (codebase_search exEnv [(''query'', ArgString ''find F'')]
         (snd (handleIndexProject exEnv [(''path'', ArgString ''/locked'')] exState))) =
     (ToolResultText
        (''File: /locked/a.go (Line: 0)'' @ [CHR 0x0A] @ ''Score: 1.000'' @ [CHR 0x0A] @
         ''```go'' @ [CHR 0x0A] @ ''func F'' @ [CHR 0x0A] @ ''```'' @ [CHR 0x0A, CHR 0x0A] @
         ''---'' @ [CHR 0x0A]), None) \<and>
   map (\<lambda>p. map_of (Payload (snd p)) ''line_start'')
     (store (snd (handleIndexProject exEnv [(''path'', ArgString ''/locked'')] exState))) =
     [Some (IntegerValue 1)]"
  using render_indexed_point[of env path c score] renderPoints_concat[of env points "[]"]
    ex_index_then_search
  by simp

section \<open>Point identity\<close>

lemma append_sep_inj:
  "x \<notin> set a \<Longrightarrow> x \<notin> set b \<Longrightarrow> a @ x # u = b @ x # v \<Longrightarrow> a = b \<and> u = v"
proof (induction a arbitrary: b)
  case Nil
  then show ?case by (cases b) auto
next
  case (Cons y a)
  then show ?case by (cases b) auto
qed

lemma uuidName_inj:
  assumes "CHR '':'' \<notin> set n1" and "CHR '':'' \<notin> set n2"
    and "uuidName p1 n1 = uuidName p2 n2"
  shows "p1 = p2 \<and> n1 = n2"
proof -
  have "rev n1 @ CHR '':'' # rev p1 = rev n2 @ CHR '':'' # rev p2"
    using assms(3) by (simp add: uuidName_def) (metis rev.simps(2) rev_append rev_rev_ident append_assoc append_Cons append_Nil)
  moreover have "CHR '':'' \<notin> set (rev n1)" "CHR '':'' \<notin> set (rev n2)"
    using assms(1,2) by simp_all
  ultimately have "rev n1 = rev n2 \<and> rev p1 = rev p2"
    using append_sep_inj[of "CHR '':''" "rev n1" "rev n2" "rev p1" "rev p2"] by blast
  then show ?thesis by simp
qed

text \<open>C2. The identity of a chunk's point is the hash of \<open>path : name\<close> in the URL namespace
  and of nothing else: two chunks of one file with one name get one identity, whatever
  their text, lines and embedding, and the point that a match sends to the store carries
  that identity. A name is the text of an identifier, which holds no colon; for such
  names different (path, name) pairs give different hashed names, so their identities
  differ unless the hash itself collides on two different inputs.\<close>

theorem identity_of_path_and_name:
  "(funcName c = funcName c' \<longrightarrow>
      Id (chunkPoint env path c embedding) = Id (chunkPoint env path c' embedding')) \<and>
   Id (chunkPoint env path c embedding) = NewSHA1 env NameSpaceURL (path @ '':'' @ funcName c) \<and>
   (\<forall>v s1. getOllamaEmbedding env (funcBody (readCaptures m emptyChunk)) s = (Inr v, s1) \<longrightarrow>
      (\<exists>p. upserts (indexMatch env path m s) = upserts s1 @ [p] \<and>
           Id p = NewSHA1 env NameSpaceURL (path @ '':'' @ funcName (readCaptures m emptyChunk)))) \<and>
   (CHR '':'' \<notin> set n1 \<and> CHR '':'' \<notin> set n2 \<and> (p1, n1) \<noteq> (p2, n2) \<longrightarrow>
      uuidName p1 n1 \<noteq> uuidName p2 n2 \<and>
      (uniqueID env p1 n1 = uniqueID env p2 n2 \<longrightarrow>
         (\<exists>x y. x \<noteq> y \<and> NewSHA1 env NameSpaceURL x = NewSHA1 env NameSpaceURL y)))"
proof (intro conjI impI allI)
  assume "funcName c = funcName c'"
  then show "Id (chunkPoint env path c embedding) = Id (chunkPoint env path c' embedding')"
    by (simp add: chunkPoint_def)
next
  show "Id (chunkPoint env path c embedding) = NewSHA1 env NameSpaceURL (path @ '':'' @ funcName c)"
    by (simp add: chunkPoint_def uniqueID_def uuidName_def)
next
  fix v s1
  assume g: "getOllamaEmbedding env (funcBody (readCaptures m emptyChunk)) s = (Inr v, s1)"
  let ?p = "chunkPoint env path (readCaptures m emptyChunk) v"
  have "upserts (indexMatch env path m s) = upserts s1 @ [?p]"
    using g by (simp add: indexMatch_def Let_def incFailed_def incChunks_def split: option.splits)
  moreover have "Id ?p = NewSHA1 env NameSpaceURL (path @ '':'' @ funcName (readCaptures m emptyChunk))"
    by (simp add: chunkPoint_def uniqueID_def uuidName_def)
  ultimately show "\<exists>p. upserts (indexMatch env path m s) = upserts s1 @ [p] \<and>
           Id p = NewSHA1 env NameSpaceURL (path @ '':'' @ funcName (readCaptures m emptyChunk))"
    by blast
next
  assume a: "CHR '':'' \<notin> set n1 \<and> CHR '':'' \<notin> set n2 \<and> (p1, n1) \<noteq> (p2, n2)"
  then show "uuidName p1 n1 \<noteq> uuidName p2 n2"
    using uuidName_inj[of n1 n2 p1 p2] by auto
next
  assume a: "CHR '':'' \<notin> set n1 \<and> CHR '':'' \<notin> set n2 \<and> (p1, n1) \<noteq> (p2, n2)"
    and e: "uniqueID env p1 n1 = uniqueID env p2 n2"
  from a have "uuidName p1 n1 \<noteq> uuidName p2 n2"
    using uuidName_inj[of n1 n2 p1 p2] by auto
  with e show "\<exists>x y. x \<noteq> y \<and> NewSHA1 env NameSpaceURL x = NewSHA1 env NameSpaceURL y"
    unfolding uniqueID_def by blast
qed

theorem identity_of_path_and_name_witness:
  "Id (chunkPoint exEnv ''/p/a.go''
         \<lparr>funcName = ''Foo'', funcBody = ''func Foo() {}'', startLine = 1, endLine = 1\<rparr> [1]) =
   Id (chunkPoint exEnv ''/p/a.go''
         \<lparr>funcName = ''Foo'', funcBody = ''func Foo() { return }'', startLine = 7, endLine = 9\<rparr> [2, 3]) \<and>
   (\<exists>p. upserts (indexMatch exEnv ''/p/a.go'' (exMatch (0, CHR ''F'')) exState) = [p] \<and>
        Id p = NewSHA1 exEnv NameSpaceURL ''/p/a.go:F'') \<and>
   uuidName ''/p/a.go'' ''Foo'' \<noteq> uuidName ''/p/a.go'' ''Bar'' \<and>
   uniqueID exEnv ''/p/a.go'' ''Foo'' \<noteq> uniqueID exEnv ''/p/a.go'' ''Bar'' \<and>
   uniqueID (exEnv\<lparr>NewSHA1 := \<lambda>ns name. ns\<rparr>) ''/p/a.go'' ''Foo'' =
     uniqueID (exEnv\<lparr>NewSHA1 := \<lambda>ns name. ns\<rparr>) ''/p/a.go'' ''Bar'' \<and>
   (\<exists>x y. x \<noteq> y \<and> NewSHA1 (exEnv\<lparr>NewSHA1 := \<lambda>ns name. ns\<rparr>) NameSpaceURL x =
              NewSHA1 (exEnv\<lparr>NewSHA1 := \<lambda>ns name. ns\<rparr>) NameSpaceURL y)"
proof -
  let ?c = "\<lparr>funcName = ''Foo'', funcBody = ''func Foo() {}'', startLine = 1, endLine = 1\<rparr>"
  let ?c' = "\<lparr>funcName = ''Foo'', funcBody = ''func Foo() { return }'', startLine = 7, endLine = 9\<rparr>"
  let ?env = "exEnv\<lparr>NewSHA1 := \<lambda>ns name. ns\<rparr>"
  let ?m = "exMatch (0, CHR ''F'')"
  let ?s1 = "exState\<lparr>posts := [(''http://localhost:11434'', ''func F'')]\<rparr>"
  have d: "uniqueID exEnv ''/p/a.go'' ''Foo'' \<noteq> uniqueID exEnv ''/p/a.go'' ''Bar''"
    by (simp add: uniqueID_def uuidName_def exEnv_def)
  have e: "uniqueID ?env ''/p/a.go'' ''Foo'' = uniqueID ?env ''/p/a.go'' ''Bar''"
    by (simp add: uniqueID_def)
  have n: "CHR '':'' \<notin> set ''Foo'' \<and> CHR '':'' \<notin> set ''Bar'' \<and>
           (''/p/a.go'', ''Foo'') \<noteq> (''/p/a.go'', ''Bar'')"
    by simp
  have f: "funcName ?c = funcName ?c'"
    by simp
  have g: "getOllamaEmbedding exEnv (funcBody (readCaptures ?m emptyChunk)) exState = (Inr [6, 7], ?s1)"
    by (simp add: getOllamaEmbedding_def exEnv_def exState_def exMatch_def emptyChunk_def Let_def)
  note T = identity_of_path_and_name[where c = ?c and c' = ?c' and env = exEnv and path = "''/p/a.go''"
      and embedding = "[1]" and embedding' = "[2, 3]" and m = ?m and s = exState
      and ?n1.0 = "''Foo''" and ?n2.0 = "''Bar''" and ?p1.0 = "''/p/a.go''" and ?p2.0 = "''/p/a.go''"]
  note U = identity_of_path_and_name[where c = ?c and c' = ?c' and env = ?env and path = "''/p/a.go''"
      and embedding = "[1]" and embedding' = "[2, 3]" and m = ?m and s = exState
      and ?n1.0 = "''Foo''" and ?n2.0 = "''Bar''" and ?p1.0 = "''/p/a.go''" and ?p2.0 = "''/p/a.go''"]
  have 1: "Id (chunkPoint exEnv ''/p/a.go'' ?c [1]) = Id (chunkPoint exEnv ''/p/a.go'' ?c' [2, 3])"
    by (rule T[THEN conjunct1, THEN mp, OF f])
  have 2: "\<exists>p. upserts (indexMatch exEnv ''/p/a.go'' ?m exState) = [p] \<and>
        Id p = NewSHA1 exEnv NameSpaceURL ''/p/a.go:F''"
    using T[THEN conjunct2, THEN conjunct2, THEN conjunct1, THEN spec, THEN spec, THEN mp, OF g]
    by (simp add: exState_def exMatch_def emptyChunk_def)
  have 3: "uuidName ''/p/a.go'' ''Foo'' \<noteq> uuidName ''/p/a.go'' ''Bar''"
    by (rule T[THEN conjunct2, THEN conjunct2, THEN conjunct2, THEN mp, OF n, THEN conjunct1])
  have 4: "\<exists>x y. x \<noteq> y \<and> NewSHA1 ?env NameSpaceURL x = NewSHA1 ?env NameSpaceURL y"
    by (rule U[THEN conjunct2, THEN conjunct2, THEN conjunct2, THEN mp, OF n, THEN conjunct2, THEN mp, OF e])
  from 1 2 3 d e 4 show ?thesis by (intro conjI)
qed

section \<open>The embedding client\<close>

text \<open>C4. Once the request is marshalled, \<open>getOllamaEmbedding\<close> posts exactly one request. It
  returns an error when the transport fails, when the status is not 200, and when the
  decoded response has no embedding vector; with status 200 and a decoded response that
  has vectors it returns the first one, each component converted by \<open>float32\<close>. Every
  success arises that way, with exactly one request posted.\<close>

theorem getOllamaEmbedding_contract:
  "(\<forall>jsonData. Marshal env \<lparr>Model = embeddingModel env, Input = text\<rparr> = Inr jsonData \<longrightarrow>
      posts (snd (getOllamaEmbedding env text s)) = posts s @ [(ollamaURL env, jsonData)] \<and>
      (\<forall>err. Post env (posts s) (ollamaURL env) jsonData = Inl err \<longrightarrow>
         isl (fst (getOllamaEmbedding env text s))) \<and>
      (\<forall>resp. Post env (posts s) (ollamaURL env) jsonData = Inr resp \<and> StatusCode resp \<noteq> 200 \<longrightarrow>
         isl (fst (getOllamaEmbedding env text s))) \<and>
      (\<forall>resp r. Post env (posts s) (ollamaURL env) jsonData = Inr resp \<and>
           Decode env (Body resp) = Inr r \<and> Embeddings r = [] \<longrightarrow>
         isl (fst (getOllamaEmbedding env text s))) \<and>
      (\<forall>resp r v vs. Post env (posts s) (ollamaURL env) jsonData = Inr resp \<and> StatusCode resp = 200 \<and>
           Decode env (Body resp) = Inr r \<and> Embeddings r = v # vs \<longrightarrow>
         fst (getOllamaEmbedding env text s) = Inr (map (float32 env) v))) \<and>
   (\<forall>vec. fst (getOllamaEmbedding env text s) = Inr vec \<longrightarrow>
      (\<exists>jsonData resp r v vs.
         Marshal env \<lparr>Model = embeddingModel env, Input = text\<rparr> = Inr jsonData \<and>
         Post env (posts s) (ollamaURL env) jsonData = Inr resp \<and> StatusCode resp = 200 \<and>
         Decode env (Body resp) = Inr r \<and> Embeddings r = v # vs \<and>
         vec = map (float32 env) v \<and>
         posts (snd (getOllamaEmbedding env text s)) = posts s @ [(ollamaURL env, jsonData)]))"
  by (auto simp add: getOllamaEmbedding_def Let_def split: sum.splits list.splits if_splits)

theorem getOllamaEmbedding_contract_witness:
  "fst (getOllamaEmbedding exEnv ''find F'' exState) = Inr [6, 7] \<and>
   posts (snd (getOllamaEmbedding exEnv ''find F'' exState)) = [(''http://localhost:11434'', ''find F'')] \<and>
   isl (fst (getOllamaEmbedding exEnv ''func X'' exState)) \<and>
   posts (snd (getOllamaEmbedding exEnv ''func X'' exState)) = [(''http://localhost:11434'', ''func X'')] \<and>
   isl (fst (getOllamaEmbedding exEnv ''func S'' exState)) \<and>
   isl (fst (getOllamaEmbedding exEnv ''func E'' exState)) \<and>
   (\<exists>jsonData resp r v vs.
      Marshal exEnv \<lparr>Model = embeddingModel exEnv, Input = ''find F''\<rparr> = Inr jsonData \<and>
      Post exEnv (posts exState) (ollamaURL exEnv) jsonData = Inr resp \<and> StatusCode resp = 200 \<and>
      Decode exEnv (Body resp) = Inr r \<and> Embeddings r = v # vs \<and>
      [6, 7] = map (float32 exEnv) v \<and>
      posts (snd (getOllamaEmbedding exEnv ''find F'' exState)) =
        posts exState @ [(ollamaURL exEnv, jsonData)])"
proof -
  have m: "Marshal exEnv \<lparr>Model = embeddingModel exEnv, Input = t\<rparr> = Inr t" for t
    by (simp add: exEnv_def)
  have u: "ollamaURL exEnv = ''http://localhost:11434''" and p: "posts exState = []"
    and c: "map (float32 exEnv) [6, 7] = [6, 7]"
    by (simp_all add: exEnv_def exState_def)
  note F = getOllamaEmbedding_contract[of exEnv "''find F''" exState, THEN conjunct1, THEN spec, THEN mp, OF m]
  note X = getOllamaEmbedding_contract[of exEnv "''func X''" exState, THEN conjunct1, THEN spec, THEN mp, OF m]
  note S = getOllamaEmbedding_contract[of exEnv "''func S''" exState, THEN conjunct1, THEN spec, THEN mp, OF m]
  note E = getOllamaEmbedding_contract[of exEnv "''func E''" exState, THEN conjunct1, THEN spec, THEN mp, OF m]
  have f: "Post exEnv (posts exState) (ollamaURL exEnv) ''find F'' = Inr \<lparr>StatusCode = 200, Body = ''find F''\<rparr> \<and>
      StatusCode \<lparr>StatusCode = 200, Body = ''find F''\<rparr> = 200 \<and>
      Decode exEnv (Body \<lparr>StatusCode = 200, Body = ''find F''\<rparr>) = Inr \<lparr>Embeddings = [[6, 7], [0]]\<rparr> \<and>
      Embeddings \<lparr>Embeddings = [[6, 7], [0 :: int]]\<rparr> = [6, 7] # [[0]]"
    by (simp add: exEnv_def exState_def)
  have x: "Post exEnv (posts exState) (ollamaURL exEnv) ''func X'' = Inl (LibError ''connection refused'')"
    by (simp add: exEnv_def exState_def)
  have s: "Post exEnv (posts exState) (ollamaURL exEnv) ''func S'' = Inr \<lparr>StatusCode = 500, Body = []\<rparr> \<and>
      StatusCode \<lparr>StatusCode = 500, Body = []\<rparr> \<noteq> 200"
    by (simp add: exEnv_def exState_def)
  have e: "Post exEnv (posts exState) (ollamaURL exEnv) ''func E'' = Inr \<lparr>StatusCode = 200, Body = ''func E''\<rparr> \<and>
      Decode exEnv (Body \<lparr>StatusCode = 200, Body = ''func E''\<rparr>) = Inr \<lparr>Embeddings = []\<rparr> \<and>
      Embeddings \<lparr>Embeddings = ([] :: int list list)\<rparr> = []"
    by (simp add: exEnv_def exState_def)
  have 1: "fst (getOllamaEmbedding exEnv ''find F'' exState) = Inr [6, 7]"
    using F[THEN conjunct2, THEN conjunct2, THEN conjunct2, THEN conjunct2, THEN spec, THEN spec,
        THEN spec, THEN spec, THEN mp, OF f] c by simp
  have 2: "posts (snd (getOllamaEmbedding exEnv ''find F'' exState)) = [(''http://localhost:11434'', ''find F'')]"
    using F[THEN conjunct1] u p by simp
  have 3: "isl (fst (getOllamaEmbedding exEnv ''func X'' exState))"
    by (rule X[THEN conjunct2, THEN conjunct1, THEN spec, THEN mp, OF x])
  have 4: "posts (snd (getOllamaEmbedding exEnv ''func X'' exState)) = [(''http://localhost:11434'', ''func X'')]"
    using X[THEN conjunct1] u p by simp
  have 5: "isl (fst (getOllamaEmbedding exEnv ''func S'' exState))"
    by (rule S[THEN conjunct2, THEN conjunct2, THEN conjunct1, THEN spec, THEN mp, OF s])
  have 6: "isl (fst (getOllamaEmbedding exEnv ''func E'' exState))"
    by (rule E[THEN conjunct2, THEN conjunct2, THEN conjunct2, THEN conjunct1, THEN spec, THEN spec,
          THEN mp, OF e])
  note 7 = getOllamaEmbedding_contract[of exEnv "''find F''" exState, THEN conjunct2, THEN spec, THEN mp, OF 1]
  from 1 2 3 4 5 6 7 show ?thesis by (intro conjI)
qed

section \<open>The indexing run\<close>

text \<open>C3. No failed read, embedding or upsert ends the walk or removes later work. The walk's
  error is the traversal's, which looks at no read, embedding or upsert; every visited
  \<open>.go\<close> entry is handed to \<open>ReadFile\<close>; every readable one is counted as scanned; the
  indexed counter grows by the points the store accepted and the failed counter by the
  unreadable entries plus the matches of readable entries that did not end in an accepted
  point; where marshalling succeeds, one embedding request is posted for every match.
  Each single failure adds one to the failed counter and goes on: an unreadable file
  returns nil to the walk, a failed embedding or upsert continues with the remaining
  matches. The run ends with the aggregate report: for a request whose path is found, the
  handler returns the text report with exactly these counts and a nil error.\<close>

theorem failure_isolation:
  "(let fs = fst (visit (Join env) path t);
        s' = snd (walkDir env path t s);
        sH = snd (handleIndexProject env request s)
    in
   fst (walkDir env path t s) = snd (visit (Join env) path t) \<and>
   reads s' = reads s @ map fst (goFiles fs) \<and>
   Files (stats s') = Files (stats s) + int (length (readable fs)) \<and>
   upserts s' = upserts s @ newUpserts s s' \<and>
   length (newUpserts s s') \<le> length (allMatches env fs) \<and>
   Chunks (stats s') = Chunks (stats s) + int (okUpserts env (upserts s) (newUpserts s s')) \<and>
   Failed (stats s') =
     Failed (stats s) + int (length (unreadable fs)) + int (length (allMatches env fs))
     - int (okUpserts env (upserts s) (newUpserts s s')) \<and>
   ((\<forall>r. Marshal env r = Inr (M r)) \<longrightarrow>
      posts s' = posts s @ map (embedRequest env M) (allMatches env fs)) \<and>
   (Ext path = ''.go'' \<longrightarrow>
      walkDir env path (File n None) s =
        (None, s\<lparr>reads := reads s @ [path],
                  stats := (stats s)\<lparr>Failed := Failed (stats s) + 1\<rparr>\<rparr>)) \<and>
   (\<forall>e s1. getOllamaEmbedding env (funcBody (readCaptures m emptyChunk)) s = (Inl e, s1) \<longrightarrow>
      indexMatches env path (m # ms) s =
        indexMatches env path ms (s1\<lparr>stats := (stats s1)\<lparr>Failed := Failed (stats s1) + 1\<rparr>\<rparr>)) \<and>
   (\<forall>v s1 e. getOllamaEmbedding env (funcBody (readCaptures m emptyChunk)) s = (Inr v, s1) \<and>
        Upsert env (upserts s1) (chunkPoint env path (readCaptures m emptyChunk) v) = Some e \<longrightarrow>
      indexMatches env path (m # ms) s =
        indexMatches env path ms
          (s1\<lparr>upserts := upserts s1 @ [chunkPoint env path (readCaptures m emptyChunk) v],
              stats := (stats s1)\<lparr>Failed := Failed (stats s1) + 1\<rparr>\<rparr>)) \<and>
   (RequireString request ''path'' = Inr path \<and> Lstat env path = Inr t \<longrightarrow>
      fst (handleIndexProject env request s) =
        (ToolResultText
           (''Indexing Complete.'' @ [CHR 0x0A] @
            ''Files Scanned: '' @ show_int (int (length (readable fs))) @ [CHR 0x0A] @
            ''Functions Indexed: '' @
               show_int (int (okUpserts env (upserts s) (newUpserts s sH))) @ [CHR 0x0A] @
            ''Failed/Skipped: '' @
               show_int (int (length (unreadable fs)) + int (length (allMatches env fs))
                         - int (okUpserts env (upserts s) (newUpserts s sH))) @
            ''/'' @ show_int (int (length (otherFiles fs)))), None)))"
  unfolding Let_def
proof (intro conjI)
  show "fst (walkDir env path t s) = snd (visit (Join env) path t)"
    by (simp add: walk_visit(1))
  show "reads (snd (walkDir env path t s)) = reads s @ map fst (goFiles (fst (visit (Join env) path t)))"
    by (rule walk_counters(1))
  show "Files (stats (snd (walkDir env path t s))) =
      Files (stats s) + int (length (readable (fst (visit (Join env) path t))))"
    by (rule walk_counters(2))
  show "upserts (snd (walkDir env path t s)) = upserts s @ newUpserts s (snd (walkDir env path t s))"
    by (rule walk_counters(4))
  show "length (newUpserts s (snd (walkDir env path t s))) \<le>
      length (allMatches env (fst (visit (Join env) path t)))"
    by (rule walk_counters(5))
  show "Chunks (stats (snd (walkDir env path t s))) =
      Chunks (stats s) + int (okUpserts env (upserts s) (newUpserts s (snd (walkDir env path t s))))"
    by (rule walk_counters(6))
  show "Failed (stats (snd (walkDir env path t s))) =
     Failed (stats s) + int (length (unreadable (fst (visit (Join env) path t))))
     + int (length (allMatches env (fst (visit (Join env) path t))))
     - int (okUpserts env (upserts s) (newUpserts s (snd (walkDir env path t s))))"
    by (rule walk_counters(7))
  show "(\<forall>r. Marshal env r = Inr (M r)) \<longrightarrow>
      posts (snd (walkDir env path t s)) =
        posts s @ map (embedRequest env M) (allMatches env (fst (visit (Join env) path t)))"
    by (simp add: walk_visit(1) visitFiles_posts)
  show "Ext path = ''.go'' \<longrightarrow>
      walkDir env path (File n None) s =
        (None, s\<lparr>reads := reads s @ [path],
                  stats := (stats s)\<lparr>Failed := Failed (stats s) + 1\<rparr>\<rparr>)"
    by (simp add: walkDir.simps walkDirFn_def incFailed_def)
  show "\<forall>e s1. getOllamaEmbedding env (funcBody (readCaptures m emptyChunk)) s = (Inl e, s1) \<longrightarrow>
      indexMatches env path (m # ms) s =
        indexMatches env path ms (s1\<lparr>stats := (stats s1)\<lparr>Failed := Failed (stats s1) + 1\<rparr>\<rparr>)"
    by (simp add: indexMatch_def incFailed_def)
  show "\<forall>v s1 e. getOllamaEmbedding env (funcBody (readCaptures m emptyChunk)) s = (Inr v, s1) \<and>
        Upsert env (upserts s1) (chunkPoint env path (readCaptures m emptyChunk) v) = Some e \<longrightarrow>
      indexMatches env path (m # ms) s =
        indexMatches env path ms
          (s1\<lparr>upserts := upserts s1 @ [chunkPoint env path (readCaptures m emptyChunk) v],
              stats := (stats s1)\<lparr>Failed := Failed (stats s1) + 1\<rparr>\<rparr>)"
    by (simp add: indexMatch_def incFailed_def Let_def)
  show "RequireString request ''path'' = Inr path \<and> Lstat env path = Inr t \<longrightarrow>
      fst (handleIndexProject env request s) =
        (ToolResultText
           (''Indexing Complete.'' @ [CHR 0x0A] @
            ''Files Scanned: '' @ show_int (int (length (readable (fst (visit (Join env) path t))))) @ [CHR 0x0A] @
            ''Functions Indexed: '' @
               show_int (int (okUpserts env (upserts s)
                 (newUpserts s (snd (handleIndexProject env request s))))) @ [CHR 0x0A] @
            ''Failed/Skipped: '' @
               show_int (int (length (unreadable (fst (visit (Join env) path t))))
                         + int (length (allMatches env (fst (visit (Join env) path t))))
                         - int (okUpserts env (upserts s)
                             (newUpserts s (snd (handleIndexProject env request s))))) @
            ''/'' @ show_int (int (length (otherFiles (fst (visit (Join env) path t)))))), None)"
  proof
    assume a: "RequireString request ''path'' = Inr path \<and> Lstat env path = Inr t"
    let ?s0 = "s\<lparr>stats := zeroStats\<rparr>"
    let ?sH = "snd (walkDir env path t ?s0)"
    let ?fs = "fst (visit (Join env) path t)"
    have h: "handleIndexProject env request s = ((ToolResultText (report (stats ?sH)), None), ?sH)"
      using a by (simp add: handleIndexProject_def WalkDir_def split: prod.splits)
    have n: "newUpserts s ?sH = newUpserts ?s0 ?sH" "upserts ?s0 = upserts s"
      by (simp_all add: newUpserts_def)
    have z: "Files (stats ?s0) = 0" "Chunks (stats ?s0) = 0" "Failed (stats ?s0) = 0" "Skipped (stats ?s0) = 0"
      by (simp_all add: zeroStats_def)
    have c: "Files (stats ?sH) = int (length (readable ?fs))"
      "Chunks (stats ?sH) = int (okUpserts env (upserts s) (newUpserts s ?sH))"
      "Failed (stats ?sH) = int (length (unreadable ?fs)) + int (length (allMatches env ?fs))
          - int (okUpserts env (upserts s) (newUpserts s ?sH))"
      "Skipped (stats ?sH) = int (length (otherFiles ?fs))"
      using walk_counters(2,6,7,3)[of env path t ?s0] z unfolding n(1)[symmetric] n(2) by simp_all
    show "fst (handleIndexProject env request s) =
        (ToolResultText
           (''Indexing Complete.'' @ [CHR 0x0A] @
            ''Files Scanned: '' @ show_int (int (length (readable ?fs))) @ [CHR 0x0A] @
            ''Functions Indexed: '' @
               show_int (int (okUpserts env (upserts s)
                 (newUpserts s (snd (handleIndexProject env request s))))) @ [CHR 0x0A] @
            ''Failed/Skipped: '' @
               show_int (int (length (unreadable ?fs))
                         + int (length (allMatches env ?fs))
                         - int (okUpserts env (upserts s)
                             (newUpserts s (snd (handleIndexProject env request s))))) @
            ''/'' @ show_int (int (length (otherFiles ?fs)))), None)"
      unfolding h by (simp add: report_def c)
  qed
qed

theorem failure_isolation_witness:
  "fst (walkDir exEnv ''/proj'' exTree exState) = None \<and>
   reads (snd (walkDir exEnv ''/proj'' exTree exState)) =
     [''/proj/a.go'', ''/proj/b.go'', ''/proj/pkg/.c.go'', ''/proj/z.go''] \<and>
   Files (stats (snd (walkDir exEnv ''/proj'' exTree exState))) = 3 \<and>
   Chunks (stats (snd (walkDir exEnv ''/proj'' exTree exState))) = 2 \<and>
   Failed (stats (snd (walkDir exEnv ''/proj'' exTree exState))) = 3 \<and>
   posts (snd (walkDir exEnv ''/proj'' exTree exState)) =
     [(''http://localhost:11434'', ''func F''), (''http://localhost:11434'', ''func X''),
      (''http://localhost:11434'', ''func U''), (''http://localhost:11434'', ''func Z'')] \<and>
   walkDir exEnv ''/proj/b.go'' (File ''b.go'' None) exState =
     (None, exState\<lparr>reads := [''/proj/b.go''],
                      stats := \<lparr>Files = 0, Chunks = 0, Skipped = 0, Failed = 1\<rparr>\<rparr>) \<and>
   stats (indexMatches exEnv ''/proj/a.go'' [exMatch (0, CHR ''X''), exMatch (1, CHR ''F'')] exState) =
     \<lparr>Files = 0, Chunks = 1, Skipped = 0, Failed = 1\<rparr> \<and>
   stats (indexMatches exEnv ''/proj/a.go'' [exMatch (0, CHR ''U''), exMatch (1, CHR ''F'')] exState) =
     \<lparr>Files = 0, Chunks = 1, Skipped = 0, Failed = 1\<rparr> \<and>
   fst (handleIndexProject exEnv [(''path'', ArgString ''/proj'')] exState) =
     (ToolResultText (''Indexing Complete.'' @ [CHR 0x0A] @ ''Files Scanned: 3'' @ [CHR 0x0A] @
        ''Functions Indexed: 2'' @ [CHR 0x0A] @ ''Failed/Skipped: 3/1''), None)"
proof -
  let ?rq = "[(''path'', ArgString ''/proj'')]"
  let ?fs = "[(''/proj/README.md'', Some ''R''), (''/proj/a.go'', Some ''FX''), (''/proj/b.go'', None),
       (''/proj/pkg/.c.go'', Some ''U''), (''/proj/z.go'', Some ''Z'')]"
  have m: "\<forall>r. Marshal exEnv r = Inr (Input r)"
    by (simp add: exEnv_def)
  have a: "allMatches exEnv ?fs =
             [exMatch (0, CHR ''F''), exMatch (1, CHR ''X''), exMatch (0, CHR ''U''), exMatch (0, CHR ''Z'')]"
    by (simp add: allMatches_def goFiles_def Ext_def exEnv_def enumerate_eq_zip)
  have g: "goFiles ?fs =
             [(''/proj/a.go'', Some ''FX''), (''/proj/b.go'', None),
              (''/proj/pkg/.c.go'', Some ''U''), (''/proj/z.go'', Some ''Z'')]"
    by (simp add: goFiles_def Ext_def)
  have r: "length (readable ?fs) = 3" and u: "length (unreadable ?fs) = 1"
    and o: "length (otherFiles ?fs) = 1"
    by (simp_all add: readable_def unreadable_def otherFiles_def g) (simp add: Ext_def)
  have k: "okUpserts exEnv (upserts exState)
             (newUpserts exState (snd (walkDir exEnv ''/proj'' exTree exState))) = 2"
    unfolding ex_proj_walk by (simp add: newUpserts_def exState_def exEnv_def)
  have z: "stats exState = zeroStats" "reads exState = []" "posts exState = []"
    by (simp_all add: exState_def)
  note T = failure_isolation[where env = exEnv and path = "''/proj''" and t = exTree and s = exState
      and request = ?rq and M = Input and n = "''proj''" and m = "[]" and ms = "[]",
      unfolded Let_def ex_proj_visit fst_conv snd_conv ex_proj_handle]
  have 1: "fst (walkDir exEnv ''/proj'' exTree exState) = None"
    by (rule T[THEN conjunct1])
  have 2: "reads (snd (walkDir exEnv ''/proj'' exTree exState)) =
     [''/proj/a.go'', ''/proj/b.go'', ''/proj/pkg/.c.go'', ''/proj/z.go'']"
    using T[THEN conjunct2, THEN conjunct1] by (simp add: g z)
  have 3: "Files (stats (snd (walkDir exEnv ''/proj'' exTree exState))) = 3"
    using T[THEN conjunct2, THEN conjunct2, THEN conjunct1] by (simp add: r z zeroStats_def)
  have 4: "Chunks (stats (snd (walkDir exEnv ''/proj'' exTree exState))) = 2"
    using T[THEN conjunct2, THEN conjunct2, THEN conjunct2, THEN conjunct2, THEN conjunct2, THEN conjunct1]
    by (simp add: k z zeroStats_def)
  have 5: "Failed (stats (snd (walkDir exEnv ''/proj'' exTree exState))) = 3"
    using T[THEN conjunct2, THEN conjunct2, THEN conjunct2, THEN conjunct2, THEN conjunct2, THEN conjunct2,
        THEN conjunct1]
    by (simp add: k u a z zeroStats_def)
  have er: "map (embedRequest exEnv Input)
              [exMatch (0, CHR ''F''), exMatch (1, CHR ''X''), exMatch (0, CHR ''U''), exMatch (0, CHR ''Z'')] =
     [(''http://localhost:11434'', ''func F''), (''http://localhost:11434'', ''func X''),
      (''http://localhost:11434'', ''func U''), (''http://localhost:11434'', ''func Z'')]"
    by (simp add: embedRequest_def exMatch_def emptyChunk_def exEnv_def)
  have 6: "posts (snd (walkDir exEnv ''/proj'' exTree exState)) =
     [(''http://localhost:11434'', ''func F''), (''http://localhost:11434'', ''func X''),
      (''http://localhost:11434'', ''func U''), (''http://localhost:11434'', ''func Z'')]"
    using T[THEN conjunct2, THEN conjunct2, THEN conjunct2, THEN conjunct2, THEN conjunct2, THEN conjunct2,
        THEN conjunct2, THEN conjunct1, THEN mp, OF m]
    unfolding a er z by simp
  have rp: "RequireString ?rq ''path'' = Inr ''/proj'' \<and> Lstat exEnv ''/proj'' = Inr exTree"
    by (simp add: RequireString.simps exEnv_def)
  have 10: "fst (handleIndexProject exEnv ?rq exState) =
     (ToolResultText (''Indexing Complete.'' @ [CHR 0x0A] @ ''Files Scanned: 3'' @ [CHR 0x0A] @
        ''Functions Indexed: 2'' @ [CHR 0x0A] @ ''Failed/Skipped: 3/1''), None)"
    using T[THEN conjunct2, THEN conjunct2, THEN conjunct2, THEN conjunct2, THEN conjunct2, THEN conjunct2,
        THEN conjunct2, THEN conjunct2, THEN conjunct2, THEN conjunct2, THEN conjunct2, THEN mp, OF rp]
    by (simp add: r u o a k show_int_small)
  have e: "Ext ''/proj/b.go'' = ''.go''"
    by (simp add: Ext_def)
  have 7: "walkDir exEnv ''/proj/b.go'' (File ''b.go'' None) exState =
     (None, exState\<lparr>reads := [''/proj/b.go''],
                      stats := \<lparr>Files = 0, Chunks = 0, Skipped = 0, Failed = 1\<rparr>\<rparr>)"
    using failure_isolation[where env = exEnv and path = "''/proj/b.go''" and t = exTree and s = exState
      and request = ?rq and M = Input and n = "''b.go''" and m = "[]" and ms = "[]",
      unfolded Let_def, THEN conjunct2, THEN conjunct2, THEN conjunct2, THEN conjunct2, THEN conjunct2,
      THEN conjunct2, THEN conjunct2, THEN conjunct2, THEN conjunct1, THEN mp, OF e]
    by (simp add: exState_def zeroStats_def)
  let ?s1 = "exState\<lparr>posts := [(''http://localhost:11434'', ''func X'')]\<rparr>"
  have gx: "getOllamaEmbedding exEnv (funcBody (readCaptures (exMatch (0, CHR ''X'')) emptyChunk)) exState =
              (Inl (Wrapf ''failed to call Ollama API: '' (LibError ''connection refused'')), ?s1)"
    by (simp add: getOllamaEmbedding_def exEnv_def exState_def exMatch_def emptyChunk_def Let_def)
  have "indexMatches exEnv ''/proj/a.go'' (exMatch (0, CHR ''X'') # [exMatch (1, CHR ''F'')]) exState =
          indexMatches exEnv ''/proj/a.go'' [exMatch (1, CHR ''F'')]
            (?s1\<lparr>stats := (stats ?s1)\<lparr>Failed := Failed (stats ?s1) + 1\<rparr>\<rparr>)"
    by (rule failure_isolation[where env = exEnv and path = "''/proj/a.go''" and t = exTree and s = exState
      and request = ?rq and M = Input and n = "''a.go''" and m = "exMatch (0, CHR ''X'')"
      and ms = "[exMatch (1, CHR ''F'')]",
      unfolded Let_def, THEN conjunct2, THEN conjunct2, THEN conjunct2, THEN conjunct2, THEN conjunct2,
      THEN conjunct2, THEN conjunct2, THEN conjunct2, THEN conjunct2, THEN conjunct1, THEN spec, THEN spec,
      THEN mp, OF gx])
  then have 8: "stats (indexMatches exEnv ''/proj/a.go'' [exMatch (0, CHR ''X''), exMatch (1, CHR ''F'')] exState) =
     \<lparr>Files = 0, Chunks = 1, Skipped = 0, Failed = 1\<rparr>"
    by (simp add: ex_defs)
  let ?s2 = "exState\<lparr>posts := [(''http://localhost:11434'', ''func U'')]\<rparr>"
  let ?c = "readCaptures (exMatch (0, CHR ''U'')) emptyChunk"
  have gu: "getOllamaEmbedding exEnv (funcBody ?c) exState = (Inr [6, 7], ?s2)"
    by (simp add: getOllamaEmbedding_def exEnv_def exState_def exMatch_def emptyChunk_def Let_def)
  have uu: "Upsert exEnv (upserts ?s2) (chunkPoint exEnv ''/proj/a.go'' ?c [6, 7]) = Some (LibError ''unavailable'')"
    by (simp add: exEnv_def chunkPoint_def chunkPayload_def exMatch_def emptyChunk_def)
  have "indexMatches exEnv ''/proj/a.go'' (exMatch (0, CHR ''U'') # [exMatch (1, CHR ''F'')]) exState =
          indexMatches exEnv ''/proj/a.go'' [exMatch (1, CHR ''F'')]
            (?s2\<lparr>upserts := upserts ?s2 @ [chunkPoint exEnv ''/proj/a.go'' ?c [6, 7]],
                 stats := (stats ?s2)\<lparr>Failed := Failed (stats ?s2) + 1\<rparr>\<rparr>)"
    by (rule failure_isolation[where env = exEnv and path = "''/proj/a.go''" and t = exTree and s = exState
      and request = ?rq and M = Input and n = "''a.go''" and m = "exMatch (0, CHR ''U'')"
      and ms = "[exMatch (1, CHR ''F'')]",
      unfolded Let_def, THEN conjunct2, THEN conjunct2, THEN conjunct2, THEN conjunct2, THEN conjunct2,
      THEN conjunct2, THEN conjunct2, THEN conjunct2, THEN conjunct2, THEN conjunct2, THEN conjunct1,
      THEN spec, THEN spec, THEN spec, THEN mp, OF conjI[OF gu uu]])
  then have 9: "stats (indexMatches exEnv ''/proj/a.go'' [exMatch (0, CHR ''U''), exMatch (1, CHR ''F'')] exState) =
     \<lparr>Files = 0, Chunks = 1, Skipped = 0, Failed = 1\<rparr>"
    by (simp add: ex_defs)
  from 1 2 3 4 5 6 7 8 9 10 show ?thesis by (intro conjI)
qed

text \<open>C5, as stated, fails: no call of a run is bounded in time, so a run does not always
  complete. In the example project \<open>/proj/z.go\<close> is a FIFO, \<^verbatim>\<open>os.ReadFile\<close> never returns
  on it, and the request gets no report.\<close>

theorem index_project_blocks:
  "RequireString [(''path'', ArgString ''/proj'')] ''path'' = Inr ''/proj'' \<and>
   indexProjectResult exFifo exEnv [(''path'', ArgString ''/proj'')] exState = None"
proof -
  obtain r where h: "handleIndexProject exEnv [(''path'', ArgString ''/proj'')] exState =
     (r, snd (walkDir exEnv ''/proj'' exTree exState))"
    using ex_proj_handle by (metis prod.collapse)
  have c: "\<not> callsReturn exFifo exState (snd (walkDir exEnv ''/proj'' exTree exState))"
    unfolding ex_proj_walk by (simp add: callsReturn_def exFifo_def exReturns_def exState_def)
  have "indexProjectResult exFifo exEnv [(''path'', ArgString ''/proj'')] exState = None"
    unfolding indexProjectResult_def h using c by simp
  then show ?thesis
    by (simp add: RequireString.simps)
qed

text \<open>C5, amended. When every call of the run returns, a request that carries a path gets the
  text report and a nil error: the four counts the walk reached, whatever error the walk
  ended with. A run gives this report or does not return; it never gives an error result.
  When the root is not found the four counts are zero; otherwise they are the readable
  \<open>.go\<close> entries the walk visited, the points the store accepted, the unreadable entries
  plus the matches that did not end in an accepted point, and the visited entries with
  another extension.\<close>

theorem index_reports_when_calls_return:
  "RequireString request ''path'' = Inr rootPath \<longrightarrow>
     (let sH = snd (WalkDir env rootPath (s\<lparr>stats := zeroStats\<rparr>));
          text = ''Indexing Complete.'' @ [CHR 0x0A] @
                 ''Files Scanned: '' @ show_int (Files (stats sH)) @ [CHR 0x0A] @
                 ''Functions Indexed: '' @ show_int (Chunks (stats sH)) @ [CHR 0x0A] @
                 ''Failed/Skipped: '' @ show_int (Failed (stats sH)) @ ''/'' @ show_int (Skipped (stats sH))
      in
      handleIndexProject env request s = ((ToolResultText text, None), sH) \<and>
      ((\<forall>p. \<not> ReadBlocks B p) \<and> (\<forall>hist url body. \<not> PostBlocks B hist url body) \<and>
       (\<forall>hist p. \<not> UpsertBlocks B hist p) \<longrightarrow>
         indexProjectResult B env request s = Some (ToolResultText text, None)) \<and>
      (indexProjectResult B env request s = None \<or>
       indexProjectResult B env request s = Some (ToolResultText text, None)) \<and>
      (\<forall>err. Lstat env rootPath = Inl err \<longrightarrow> sH = s\<lparr>stats := zeroStats\<rparr>) \<and>
      (\<forall>t. Lstat env rootPath = Inr t \<longrightarrow>
         Files (stats sH) = int (length (readable (fst (visit (Join env) rootPath t)))) \<and>
         Chunks (stats sH) = int (okUpserts env (upserts s) (newUpserts s sH)) \<and>
         Failed (stats sH) =
           int (length (unreadable (fst (visit (Join env) rootPath t))))
           + int (length (allMatches env (fst (visit (Join env) rootPath t))))
           - int (okUpserts env (upserts s) (newUpserts s sH)) \<and>
         Skipped (stats sH) = int (length (otherFiles (fst (visit (Join env) rootPath t))))))"
proof
  assume a: "RequireString request ''path'' = Inr rootPath"
  let ?s0 = "s\<lparr>stats := zeroStats\<rparr>"
  let ?sH = "snd (WalkDir env rootPath ?s0)"
  let ?text = "''Indexing Complete.'' @ [CHR 0x0A] @
                 ''Files Scanned: '' @ show_int (Files (stats ?sH)) @ [CHR 0x0A] @
                 ''Functions Indexed: '' @ show_int (Chunks (stats ?sH)) @ [CHR 0x0A] @
                 ''Failed/Skipped: '' @ show_int (Failed (stats ?sH)) @ ''/'' @ show_int (Skipped (stats ?sH))"
  have h: "handleIndexProject env request s = ((ToolResultText ?text, None), ?sH)"
    using a by (simp add: handleIndexProject_def report_def split: prod.splits)
  have r: "(\<forall>p. \<not> ReadBlocks B p) \<and> (\<forall>hist url body. \<not> PostBlocks B hist url body) \<and>
       (\<forall>hist p. \<not> UpsertBlocks B hist p) \<longrightarrow>
         indexProjectResult B env request s = Some (ToolResultText ?text, None)"
    using returns_when_nothing_blocks[of B s ?sH] by (simp add: indexProjectResult_def h)
  have d: "indexProjectResult B env request s = None \<or>
       indexProjectResult B env request s = Some (ToolResultText ?text, None)"
    by (simp add: indexProjectResult_def h)
  have l: "\<forall>err. Lstat env rootPath = Inl err \<longrightarrow> ?sH = ?s0"
    by (simp add: WalkDir_def walkDirFn_def)
  have c: "\<forall>t. Lstat env rootPath = Inr t \<longrightarrow>
         Files (stats ?sH) = int (length (readable (fst (visit (Join env) rootPath t)))) \<and>
         Chunks (stats ?sH) = int (okUpserts env (upserts s) (newUpserts s ?sH)) \<and>
         Failed (stats ?sH) =
           int (length (unreadable (fst (visit (Join env) rootPath t))))
           + int (length (allMatches env (fst (visit (Join env) rootPath t))))
           - int (okUpserts env (upserts s) (newUpserts s ?sH)) \<and>
         Skipped (stats ?sH) = int (length (otherFiles (fst (visit (Join env) rootPath t))))"
  proof (intro allI impI)
    fix t
    assume t: "Lstat env rootPath = Inr t"
    have w: "?sH = snd (walkDir env rootPath t ?s0)"
      using t by (simp add: WalkDir_def split: prod.splits)
    have n: "newUpserts s (snd (walkDir env rootPath t ?s0)) = newUpserts ?s0 (snd (walkDir env rootPath t ?s0))"
      "upserts ?s0 = upserts s"
      by (simp_all add: newUpserts_def)
    have z: "Files (stats ?s0) = 0" "Chunks (stats ?s0) = 0" "Failed (stats ?s0) = 0" "Skipped (stats ?s0) = 0"
      by (simp_all add: zeroStats_def)
    show "Files (stats ?sH) = int (length (readable (fst (visit (Join env) rootPath t)))) \<and>
         Chunks (stats ?sH) = int (okUpserts env (upserts s) (newUpserts s ?sH)) \<and>
         Failed (stats ?sH) =
           int (length (unreadable (fst (visit (Join env) rootPath t))))
           + int (length (allMatches env (fst (visit (Join env) rootPath t))))
           - int (okUpserts env (upserts s) (newUpserts s ?sH)) \<and>
         Skipped (stats ?sH) = int (length (otherFiles (fst (visit (Join env) rootPath t))))"
      unfolding w
      using walk_counters(2,6,7,3)[of env rootPath t ?s0] z unfolding n(1)[symmetric] n(2) by simp
  qed
  from h r d l c show "(let sH = snd (WalkDir env rootPath (s\<lparr>stats := zeroStats\<rparr>));
          text = ''Indexing Complete.'' @ [CHR 0x0A] @
                 ''Files Scanned: '' @ show_int (Files (stats sH)) @ [CHR 0x0A] @
                 ''Functions Indexed: '' @ show_int (Chunks (stats sH)) @ [CHR 0x0A] @
                 ''Failed/Skipped: '' @ show_int (Failed (stats sH)) @ ''/'' @ show_int (Skipped (stats sH))
      in
      handleIndexProject env request s = ((ToolResultText text, None), sH) \<and>
      ((\<forall>p. \<not> ReadBlocks B p) \<and> (\<forall>hist url body. \<not> PostBlocks B hist url body) \<and>
       (\<forall>hist p. \<not> UpsertBlocks B hist p) \<longrightarrow>
         indexProjectResult B env request s = Some (ToolResultText text, None)) \<and>
      (indexProjectResult B env request s = None \<or>
       indexProjectResult B env request s = Some (ToolResultText text, None)) \<and>
      (\<forall>err. Lstat env rootPath = Inl err \<longrightarrow> sH = s\<lparr>stats := zeroStats\<rparr>) \<and>
      (\<forall>t. Lstat env rootPath = Inr t \<longrightarrow>
         Files (stats sH) = int (length (readable (fst (visit (Join env) rootPath t)))) \<and>
         Chunks (stats sH) = int (okUpserts env (upserts s) (newUpserts s sH)) \<and>
         Failed (stats sH) =
           int (length (unreadable (fst (visit (Join env) rootPath t))))
           + int (length (allMatches env (fst (visit (Join env) rootPath t))))
           - int (okUpserts env (upserts s) (newUpserts s sH)) \<and>
         Skipped (stats sH) = int (length (otherFiles (fst (visit (Join env) rootPath t))))))"
    unfolding Let_def by (intro conjI)
qed

theorem index_reports_when_calls_return_witness:
  "fst (WalkDir exEnv ''/locked'' exState) = Some (LibError ''permission denied'') \<and>
   indexProjectResult exReturns exEnv [(''path'', ArgString ''/locked'')] exState =
     Some (ToolResultText (''Indexing Complete.'' @ [CHR 0x0A] @ ''Files Scanned: 1'' @ [CHR 0x0A] @
             ''Functions Indexed: 1'' @ [CHR 0x0A] @ ''Failed/Skipped: 0/0''), None) \<and>
   indexProjectResult exReturns exDown [(''path'', ArgString ''/proj'')] exState =
     Some (ToolResultText (''Indexing Complete.'' @ [CHR 0x0A] @ ''Files Scanned: 3'' @ [CHR 0x0A] @
             ''Functions Indexed: 0'' @ [CHR 0x0A] @ ''Failed/Skipped: 5/1''), None) \<and>
   handleIndexProject exEnv [(''path'', ArgString ''/nowhere'')] exState =
     ((ToolResultText (''Indexing Complete.'' @ [CHR 0x0A] @ ''Files Scanned: 0'' @ [CHR 0x0A] @
             ''Functions Indexed: 0'' @ [CHR 0x0A] @ ''Failed/Skipped: 0/0''), None), exState)"
proof -
  have a: "fst (WalkDir exEnv ''/locked'' exState) = Some (LibError ''permission denied'')"
    unfolding ex_locked_walk by simp
  have b: "indexProjectResult exReturns exEnv [(''path'', ArgString ''/locked'')] exState =
     Some (ToolResultText (''Indexing Complete.'' @ [CHR 0x0A] @ ''Files Scanned: 1'' @ [CHR 0x0A] @
             ''Functions Indexed: 1'' @ [CHR 0x0A] @ ''Failed/Skipped: 0/0''), None)"
    using index_reports_when_calls_return[where request = "[(''path'', ArgString ''/locked'')]"
        and rootPath = "''/locked''" and env = exEnv and s = exState and B = exReturns,
        unfolded Let_def, THEN mp, OF ex_requests, THEN conjunct2, THEN conjunct1, THEN mp,
        OF ex_returns]
    unfolding ex_state_zero ex_locked_walk by (simp add: show_int_small show_int_0)
  have c: "indexProjectResult exReturns exDown [(''path'', ArgString ''/proj'')] exState =
     Some (ToolResultText (''Indexing Complete.'' @ [CHR 0x0A] @ ''Files Scanned: 3'' @ [CHR 0x0A] @
             ''Functions Indexed: 0'' @ [CHR 0x0A] @ ''Failed/Skipped: 5/1''), None)"
    using index_reports_when_calls_return[where request = "[(''path'', ArgString ''/proj'')]"
        and rootPath = "''/proj''" and env = exDown and s = exState and B = exReturns,
        unfolded Let_def, THEN mp, OF ex_requests, THEN conjunct2, THEN conjunct1, THEN mp,
        OF ex_returns]
    unfolding ex_state_zero ex_down_walk by (simp add: show_int_small show_int_0)
  have d: "handleIndexProject exEnv [(''path'', ArgString ''/nowhere'')] exState =
     ((ToolResultText (''Indexing Complete.'' @ [CHR 0x0A] @ ''Files Scanned: 0'' @ [CHR 0x0A] @
             ''Functions Indexed: 0'' @ [CHR 0x0A] @ ''Failed/Skipped: 0/0''), None), exState)"
    using index_reports_when_calls_return[where request = "[(''path'', ArgString ''/nowhere'')]"
        and rootPath = "''/nowhere''" and env = exEnv and s = exState and B = exReturns,
        unfolded Let_def, THEN mp, OF ex_requests, THEN conjunct1]
    unfolding ex_state_zero ex_nowhere_walk by (simp add: exState_def zeroStats_def show_int_0)
  from a b c d show ?thesis by (intro conjI)
qed

text \<open>C6. A directory with a pruned name is left at once, with no error and no effect, whatever
  lies beneath it; and at whatever depth such directories sit in the tree, the traversal,
  the walk and the whole handler are those of the tree in which each of them is empty:
  no entry beneath one is among the visited entries, is read, parsed or indexed.\<close>

theorem pruned_directories_not_descended:
  "(pruned n \<longrightarrow> walkDir env path (Dir n ds rerr) s = (None, s)) \<and>
   visit (Join env) path (strip t) = visit (Join env) path t \<and>
   walkDir env path (strip t) s = walkDir env path t s \<and>
   handleIndexProject (env\<lparr>Lstat := \<lambda>p. map_sum (\<lambda>e. e) strip (Lstat env p)\<rparr>) request s =
     handleIndexProject env request s"
proof (intro conjI impI)
  show "visit (Join env) path (strip t) = visit (Join env) path t"
    by (rule visit_strip(1))
next
  assume "pruned n"
  then show "walkDir env path (Dir n ds rerr) s = (None, s)"
    by (simp add: walkDir_Dir)
next
  show "walkDir env path (strip t) s = walkDir env path t s"
    by (simp add: walk_visit(1) visit_strip(1))
next
  have w: "walkDir (env\<lparr>Lstat := f\<rparr>) root (strip b) s0 = walkDir env root b s0" for f root b s0
    unfolding walkDir_Lstat by (simp add: walk_visit(1) visit_strip(1))
  have "WalkDir (env\<lparr>Lstat := \<lambda>p. map_sum (\<lambda>e. e) strip (Lstat env p)\<rparr>) root s0 = WalkDir env root s0"
    for root s0
    by (cases "Lstat env root") (simp_all add: WalkDir_def w walkDirFn_Lstat)
  then show "handleIndexProject (env\<lparr>Lstat := \<lambda>p. map_sum (\<lambda>e. e) strip (Lstat env p)\<rparr>) request s =
     handleIndexProject env request s"
    by (simp add: handleIndexProject_def split: sum.splits)
qed

theorem pruned_directories_not_descended_witness:
  "pruned ''.git'' \<and>
   walkDir exEnv ''/proj/.git'' (Dir ''.git'' [File ''hook.go'' (Some ''G'')] None) exState = (None, exState) \<and>
   reads (snd (walkDir exEnv ''/proj'' (strip exTree) exState)) =
     [''/proj/a.go'', ''/proj/b.go'', ''/proj/pkg/.c.go'', ''/proj/z.go'']"
proof -
  have p: "pruned ''.git''"
    by (simp add: pruned_def HasPrefix_def)
  show ?thesis
    using pruned_directories_not_descended[of "''.git''" exEnv "''/proj/.git''"
        "[File ''hook.go'' (Some ''G'')]" None exState exTree "[]"]
      pruned_directories_not_descended[of "''.git''" exEnv "''/proj''" "[]" None exState exTree "[]"] p
    by (simp add: ex_proj_walk)
qed



text \<open>C9. When the root is a directory with a pruned name (the name \<^verbatim>\<open>Lstat\<close> gives the root
  entry is the last element of the root path), the handler reads nothing, posts nothing,
  stores nothing and reports four zeros.\<close>

theorem pruned_root_reports_zero:
  assumes "RequireString request ''path'' = Inr rootPath"
    and "Lstat env rootPath = Inr (Dir n ds rerr)"
    and "pruned n"
  shows "handleIndexProject env request s =
           ((ToolResultText (''Indexing Complete.'' @ [CHR 0x0A] @ ''Files Scanned: 0'' @ [CHR 0x0A] @
               ''Functions Indexed: 0'' @ [CHR 0x0A] @ ''Failed/Skipped: 0/0''), None),
            s\<lparr>stats := zeroStats\<rparr>)"
proof -
  have "WalkDir env rootPath (s\<lparr>stats := zeroStats\<rparr>) = (None, s\<lparr>stats := zeroStats\<rparr>)"
    using assms(2,3) by (simp add: WalkDir_def walkDir_Dir)
  then show ?thesis
    using assms(1) report_zero by (simp add: handleIndexProject_def)
qed

theorem pruned_root_reports_zero_witness:
  "handleIndexProject exEnv [(''path'', ArgString ''/proj/.git'')] exState =
     ((ToolResultText (''Indexing Complete.'' @ [CHR 0x0A] @ ''Files Scanned: 0'' @ [CHR 0x0A] @
         ''Functions Indexed: 0'' @ [CHR 0x0A] @ ''Failed/Skipped: 0/0''), None),
      exState)"
proof -
  have 1: "RequireString [(''path'', ArgString ''/proj/.git'')] ''path'' = Inr ''/proj/.git''"
    by (simp add: RequireString.simps)
  have 2: "Lstat exEnv ''/proj/.git'' = Inr (Dir ''.git'' [File ''hook.go'' (Some ''G'')] None)"
    by (simp add: exEnv_def)
  have 3: "pruned ''.git''"
    by (simp add: pruned_def HasPrefix_def)
  have "exState\<lparr>stats := zeroStats\<rparr> = exState"
    by (simp add: exState_def)
  with pruned_root_reports_zero[OF 1 2 3, of exState] show ?thesis
    by simp
qed





section \<open>The search handler\<close>

text \<open>C8. When the query is embedded and the store answers with no point, the result is the text
  \<open>No relevant code found.\<close> with a nil error. Every other outcome differs from it: an
  answer with points is the concatenation of their blocks, which is neither empty nor the
  sentinel; a failed embedding, a failed store query and a missing query argument each
  give an error result with a message of its own.\<close>

theorem search_empty_sentinel:
  "(\<forall>query queryVector s1.
      RequireString request ''query'' = Inr query \<and>
      getOllamaEmbedding env query s = (Inr queryVector, s1) \<and>
      Query env (store s1) queryVector (LimitArg env request) = Inr [] \<longrightarrow>
      fst (codebase_search env request s) = (ToolResultText ''No relevant code found.'', None)) \<and>
   (\<forall>query queryVector s1 point points.
      RequireString request ''query'' = Inr query \<and>
      getOllamaEmbedding env query s = (Inr queryVector, s1) \<and>
      Query env (store s1) queryVector (LimitArg env request) = Inr (point # points) \<longrightarrow>
      fst (codebase_search env request s) =
        (ToolResultText (concat (map (renderPoint env) (point # points))), None) \<and>
      concat (map (renderPoint env) (point # points)) \<noteq> [] \<and>
      concat (map (renderPoint env) (point # points)) \<noteq> ''No relevant code found.'') \<and>
   (\<forall>query err s1.
      RequireString request ''query'' = Inr query \<and>
      getOllamaEmbedding env query s = (Inl err, s1) \<longrightarrow>
      fst (codebase_search env request s) = (ToolResultError (''Ollama error: '' @ Error err), None)) \<and>
   (\<forall>query queryVector s1 err.
      RequireString request ''query'' = Inr query \<and>
      getOllamaEmbedding env query s = (Inr queryVector, s1) \<and>
      Query env (store s1) queryVector (LimitArg env request) = Inl err \<longrightarrow>
      fst (codebase_search env request s) =
        (ToolResultError (''Qdrant search error: '' @ Error err), None)) \<and>
   (\<forall>err.
      RequireString request ''query'' = Inl err \<longrightarrow>
      fst (codebase_search env request s) =
        (ToolResultError (''Invalid or missing 'query': '' @ Error err), None))"
proof (intro conjI allI impI)
  fix query queryVector s1
  assume "RequireString request ''query'' = Inr query \<and>
      getOllamaEmbedding env query s = (Inr queryVector, s1) \<and>
      Query env (store s1) queryVector (LimitArg env request) = Inr []"
  then show "fst (codebase_search env request s) = (ToolResultText ''No relevant code found.'', None)"
    by (simp add: codebase_search_def Let_def)
next
  fix query queryVector s1 point points
  assume a: "RequireString request ''query'' = Inr query \<and>
      getOllamaEmbedding env query s = (Inr queryVector, s1) \<and>
      Query env (store s1) queryVector (LimitArg env request) = Inr (point # points)"
  obtain rest where r: "renderPoint env point = CHR ''F'' # rest"
    using renderPoint_head by blast
  have "renderPoints env (point # points) [] = CHR ''F'' # rest @ concat (map (renderPoint env) points)"
    using renderPoints_concat[of env "point # points" "[]"] r by simp
  then show "fst (codebase_search env request s) =
        (ToolResultText (concat (map (renderPoint env) (point # points))), None)"
    using a r by (simp add: codebase_search_def Let_def del: renderPoints.simps)
  show "concat (map (renderPoint env) (point # points)) \<noteq> []"
    using renderPoints_nonempty[of env point points] by blast
  show "concat (map (renderPoint env) (point # points)) \<noteq> ''No relevant code found.''"
    using renderPoints_nonempty[of env point points] by blast
next
  fix query err s1
  assume "RequireString request ''query'' = Inr query \<and>
      getOllamaEmbedding env query s = (Inl err, s1)"
  then show "fst (codebase_search env request s) = (ToolResultError (''Ollama error: '' @ Error err), None)"
    by (simp add: codebase_search_def Let_def)
next
  fix query queryVector s1 err
  assume "RequireString request ''query'' = Inr query \<and>
      getOllamaEmbedding env query s = (Inr queryVector, s1) \<and>
      Query env (store s1) queryVector (LimitArg env request) = Inl err"
  then show "fst (codebase_search env request s) =
        (ToolResultError (''Qdrant search error: '' @ Error err), None)"
    by (simp add: codebase_search_def Let_def)
next
  fix err
  assume "RequireString request ''query'' = Inl err"
  then show "fst (codebase_search env request s) =
        (ToolResultError (''Invalid or missing 'query': '' @ Error err), None)"
    by (simp add: codebase_search_def)
qed

theorem search_empty_sentinel_witness:
  "fst (codebase_search exEnv [(''query'', ArgString ''find F'')] exState) =
     (ToolResultText ''No relevant code found.'', None) \<and>
   fst (codebase_search exEnv [(''query'', ArgString ''find F'')]
         (exState\<lparr>store := [(''id'', \<lparr>Id = ''id'', Vectors = [6, 7],
             Payload = [(''file_path'', StringValue ''/locked/a.go''),
                        (''code_snippet'', StringValue ''func F'')]\<rparr>)]\<rparr>)) =
     (ToolResultText
        (''File: /locked/a.go (Line: 0)'' @ [CHR 0x0A] @ ''Score: 1.000'' @ [CHR 0x0A] @
         ''```go'' @ [CHR 0x0A] @ ''func F'' @ [CHR 0x0A] @ ''```'' @ [CHR 0x0A, CHR 0x0A] @
         ''---'' @ [CHR 0x0A]), None) \<and>
   fst (codebase_search exEnv [(''query'', ArgString ''func X'')] exState) =
     (ToolResultError ''Ollama error: failed to call Ollama API: connection refused'', None) \<and>
   fst (codebase_search (exEnv\<lparr>Query := \<lambda>st v limit. Inl (LibError ''unavailable'')\<rparr>)
         [(''query'', ArgString ''find F'')] exState) =
     (ToolResultError ''Qdrant search error: unavailable'', None) \<and>
   fst (codebase_search exEnv [] exState) =
     (ToolResultError ''Invalid or missing 'query': required argument \"query\" not found'', None)"
proof -
  let ?rq = "[(''query'', ArgString ''find F'')]"
  let ?s1 = "exState\<lparr>posts := [(''http://localhost:11434'', ''find F'')]\<rparr>"
  have q: "RequireString ?rq ''query'' = Inr ''find F''"
    by (simp add: RequireString.simps)
  have g: "getOllamaEmbedding exEnv ''find F'' exState = (Inr [6, 7], ?s1)"
    by (rule ex_embedding)
  have e: "Query exEnv (store ?s1) [6, 7] (LimitArg exEnv ?rq) = Inr []"
    by (simp add: exEnv_def exState_def)
  have 1: "fst (codebase_search exEnv ?rq exState) = (ToolResultText ''No relevant code found.'', None)"
    using search_empty_sentinel[of ?rq exEnv exState, THEN conjunct1, THEN spec, THEN spec, THEN spec,
        THEN mp, OF conjI[OF q conjI[OF g e]]] .
  let ?pl = "[(''file_path'', StringValue ''/locked/a.go''), (''code_snippet'', StringValue ''func F'')]"
  let ?t = "exState\<lparr>store := [(''id'', \<lparr>Id = ''id'', Vectors = [6, 7], Payload = ?pl\<rparr>)]\<rparr>"
  let ?t1 = "?t\<lparr>posts := [(''http://localhost:11434'', ''find F'')]\<rparr>"
  have g2: "getOllamaEmbedding exEnv ''find F'' ?t = (Inr [6, 7], ?t1)"
    by (simp add: getOllamaEmbedding_def exEnv_def exState_def Let_def)
  have e2: "Query exEnv (store ?t1) [6, 7] (LimitArg exEnv ?rq) = Inr (ScoredPoint ?pl 1 # [])"
    by (simp add: exEnv_def exState_def)
  have r2: "concat (map (renderPoint exEnv) (ScoredPoint ?pl 1 # [])) =
        ''File: /locked/a.go (Line: 0)'' @ [CHR 0x0A] @ ''Score: 1.000'' @ [CHR 0x0A] @
         ''```go'' @ [CHR 0x0A] @ ''func F'' @ [CHR 0x0A] @ ''```'' @ [CHR 0x0A, CHR 0x0A] @
         ''---'' @ [CHR 0x0A]"
    by (simp add: renderPoint_def exEnv_def show_int_0)
  have 2: "fst (codebase_search exEnv ?rq ?t) =
     (ToolResultText
        (''File: /locked/a.go (Line: 0)'' @ [CHR 0x0A] @ ''Score: 1.000'' @ [CHR 0x0A] @
         ''```go'' @ [CHR 0x0A] @ ''func F'' @ [CHR 0x0A] @ ''```'' @ [CHR 0x0A, CHR 0x0A] @
         ''---'' @ [CHR 0x0A]), None)"
    using search_empty_sentinel[of ?rq exEnv ?t, THEN conjunct2, THEN conjunct1, THEN spec, THEN spec,
        THEN spec, THEN spec, THEN spec, THEN mp, OF conjI[OF q conjI[OF g2 e2]], THEN conjunct1]
    unfolding r2 .
  let ?rx = "[(''query'', ArgString ''func X'')]"
  let ?sx = "exState\<lparr>posts := [(''http://localhost:11434'', ''func X'')]\<rparr>"
  have qx: "RequireString ?rx ''query'' = Inr ''func X''"
    by (simp add: RequireString.simps)
  have gx: "getOllamaEmbedding exEnv ''func X'' exState =
      (Inl (Wrapf ''failed to call Ollama API: '' (LibError ''connection refused'')), ?sx)"
    by (simp add: getOllamaEmbedding_def exEnv_def exState_def Let_def)
  have 3: "fst (codebase_search exEnv ?rx exState) =
     (ToolResultError ''Ollama error: failed to call Ollama API: connection refused'', None)"
    using search_empty_sentinel[of ?rx exEnv exState, THEN conjunct2, THEN conjunct2, THEN conjunct1,
        THEN spec, THEN spec, THEN spec, THEN mp, OF conjI[OF qx gx]]
    by simp
  let ?env = "exEnv\<lparr>Query := \<lambda>st v limit. Inl (LibError ''unavailable'')\<rparr>"
  have g4: "getOllamaEmbedding ?env ''find F'' exState = (Inr [6, 7], ?s1)"
    by (simp add: getOllamaEmbedding_def exEnv_def exState_def Let_def)
  have e4: "Query ?env (store ?s1) [6, 7] (LimitArg ?env ?rq) = Inl (LibError ''unavailable'')"
    by simp
  have 4: "fst (codebase_search ?env ?rq exState) = (ToolResultError ''Qdrant search error: unavailable'', None)"
    using search_empty_sentinel[of ?rq ?env exState, THEN conjunct2, THEN conjunct2, THEN conjunct2,
        THEN conjunct1, THEN spec, THEN spec, THEN spec, THEN spec, THEN mp, OF conjI[OF q conjI[OF g4 e4]]]
    by simp
  have q5: "RequireString [] ''query'' = Inl (Errorf ''required argument \"query\" not found'')"
    by (simp add: RequireString.simps)
  have 5: "fst (codebase_search exEnv [] exState) =
     (ToolResultError ''Invalid or missing 'query': required argument \"query\" not found'', None)"
    using search_empty_sentinel[of "[]" exEnv exState, THEN conjunct2, THEN conjunct2, THEN conjunct2,
        THEN conjunct2, THEN spec, THEN mp, OF q5]
    by simp
  from 1 2 3 4 5 show ?thesis by (intro conjI)
qed

end
